theory Spec2Isabelle
  imports Main
begin

section \<open>JSON values and the Python operations the source applies to them\<close>

text \<open>
  What \<^verbatim>\<open>response.json()\<close> returns, and what the operations return to their callers:
  \<^verbatim>\<open>None\<close>, a \<^verbatim>\<open>bool\<close>, an \<^verbatim>\<open>int\<close>, a \<^verbatim>\<open>str\<close>, a \<^verbatim>\<open>list\<close> or a \<^verbatim>\<open>dict\<close> with string keys
  (an association list with distinct keys, in insertion order). Numbers that are not
  integers are left out; a \<^verbatim>\<open>str\<close> is a list of characters.
\<close>

datatype json =
  JNull
| JBool bool
| JInt int
| JStr string
| JList "json list"
| JObj "(string \<times> json) list"

text \<open>
  The exceptions of the source, each with the text of \<^verbatim>\<open>str(e)\<close>;
  \<^verbatim>\<open>httpx.HTTPStatusError\<close> also carries \<^verbatim>\<open>e.response.text\<close>. \<open>RequestError\<close> stands for
  every other exception that \<^verbatim>\<open>client.request\<close> raises (connection refused, timeout).
\<close>

datatype exn =
  HTTPStatusError string string
| RequestError string
| JSONDecodeError string
| AttributeError string
| TypeError string
| KeyError string
| IndexError string

fun str_exn :: "exn \<Rightarrow> string" where
  "str_exn (HTTPStatusError msg body) = msg"
| "str_exn (RequestError msg) = msg"
| "str_exn (JSONDecodeError msg) = msg"
| "str_exn (AttributeError msg) = msg"
| "str_exn (TypeError msg) = msg"
| "str_exn (KeyError msg) = msg"
| "str_exn (IndexError msg) = msg"

fun type_name :: "json \<Rightarrow> string" where
  "type_name JNull = ''NoneType''"
| "type_name (JBool b) = ''bool''"
| "type_name (JInt n) = ''int''"
| "type_name (JStr s) = ''str''"
| "type_name (JList xs) = ''list''"
| "type_name (JObj kvs) = ''dict''"

definition quoted :: "string \<Rightarrow> string" where
  "quoted s = CHR 0x27 # s @ [CHR 0x27]"

text \<open>Truth value testing: \<^verbatim>\<open>if x:\<close>.\<close>

fun truthy :: "json \<Rightarrow> bool" where
  "truthy JNull = False"
| "truthy (JBool b) = b"
| "truthy (JInt n) = (n \<noteq> 0)"
| "truthy (JStr s) = (s \<noteq> [])"
| "truthy (JList xs) = (xs \<noteq> [])"
| "truthy (JObj kvs) = (kvs \<noteq> [])"

text \<open>\<^verbatim>\<open>x.get(key, default)\<close>: only a \<^verbatim>\<open>dict\<close> has the method.\<close>

definition py_get :: "json \<Rightarrow> string \<Rightarrow> json \<Rightarrow> exn + json" where
  "py_get x key dflt =
     (case x of
        JObj kvs \<Rightarrow> Inr (case map_of kvs key of Some v \<Rightarrow> v | None \<Rightarrow> dflt)
      | _ \<Rightarrow> Inl (AttributeError (quoted (type_name x) @ '' object has no attribute '' @ quoted ''get'')))"

text \<open>\<^verbatim>\<open>x[0]\<close> and \<^verbatim>\<open>x[-1]\<close>.\<close>

definition py_first :: "json \<Rightarrow> exn + json" where
  "py_first x =
     (case x of
        JList xs \<Rightarrow> (case xs of [] \<Rightarrow> Inl (IndexError ''list index out of range'') | y # _ \<Rightarrow> Inr y)
      | JStr s \<Rightarrow> (case s of [] \<Rightarrow> Inl (IndexError ''string index out of range'') | c # _ \<Rightarrow> Inr (JStr [c]))
      | JObj kvs \<Rightarrow> Inl (KeyError ''0'')
      | _ \<Rightarrow> Inl (TypeError (quoted (type_name x) @ '' object is not subscriptable'')))"

definition py_last :: "json \<Rightarrow> exn + json" where
  "py_last x =
     (case x of
        JList xs \<Rightarrow> (if xs = [] then Inl (IndexError ''list index out of range'') else Inr (last xs))
      | JStr s \<Rightarrow> (if s = [] then Inl (IndexError ''string index out of range'') else Inr (JStr [last s]))
      | JObj kvs \<Rightarrow> Inl (KeyError ''-1'')
      | _ \<Rightarrow> Inl (TypeError (quoted (type_name x) @ '' object is not subscriptable'')))"

text \<open>The items a \<^verbatim>\<open>for\<close> loop runs over: a \<^verbatim>\<open>dict\<close> gives its keys, a \<^verbatim>\<open>str\<close> its characters.\<close>

definition py_iter :: "json \<Rightarrow> exn + json list" where
  "py_iter x =
     (case x of
        JList xs \<Rightarrow> Inr xs
      | JObj kvs \<Rightarrow> Inr (map (\<lambda>kv. JStr (fst kv)) kvs)
      | JStr s \<Rightarrow> Inr (map (\<lambda>c. JStr [c]) s)
      | _ \<Rightarrow> Inl (TypeError (quoted (type_name x) @ '' object is not iterable'')))"

text \<open>Sequencing of two steps of which the first may raise.\<close>

definition and_then :: "exn + 'a \<Rightarrow> ('a \<Rightarrow> exn + 'b) \<Rightarrow> exn + 'b" where
  "and_then r k = (case r of Inl e \<Rightarrow> Inl e | Inr v \<Rightarrow> k v)"

section \<open>The HTTP layer\<close>

text \<open>
  A request of the manager: the method, the endpoint under
  \<^verbatim>\<open>https://api.digitalocean.com/v2\<close> and the JSON body, if any; or the POST of a
  configuration to \<^verbatim>\<open>http://{private_ip}:9999/network/apply\<close>. An instance id is kept in
  the endpoint as the JSON value that the f-string formats. The headers are the same on
  every request of a manager and are left out.
\<close>

datatype http_method = GET | POST | DELETE

datatype endpoint =
  DropletsByTag string
| Droplets
| Droplet json
| DropletActions json
| DropletSnapshots json

datatype http_request =
  ApiRequest http_method endpoint "json option"
| AgentApply json json

text \<open>
  What the HTTP client does with a request: it raises (with the text of the exception), or
  it returns a response. Of a response the source uses \<^verbatim>\<open>raise_for_status()\<close>
  (\<open>status_error\<close>: the text of the \<^verbatim>\<open>HTTPStatusError\<close> it raises, if it raises), the body
  (\<open>content\<close>, also read as \<^verbatim>\<open>response.text\<close>) and \<^verbatim>\<open>response.json()\<close> (\<open>decoded\<close>: the
  value, or the text of the decoding error).
\<close>

record response =
  status_error :: "string option"
  content :: string
  decoded :: "string + json"

datatype outcome =
  Raises string
| Responds response

text \<open>
  The provider and the sandbox agent are a state machine \<open>net\<close> over a state \<open>'p\<close> of their
  own: a request and the state give an outcome and the next state. The world of an
  operation is that state and the requests sent so far, oldest first.
\<close>

type_synonym 'p network = "http_request \<Rightarrow> 'p \<Rightarrow> outcome \<times> 'p"

record 'p world =
  peer :: 'p
  sent :: "http_request list"

definition send :: "'p network \<Rightarrow> http_request \<Rightarrow> 'p world \<Rightarrow> outcome \<times> 'p world" where
  "send net rq w =
     (case net rq (peer w) of
        (out, p') \<Rightarrow> (out, \<lparr>peer = p', sent = sent w @ [rq]\<rparr>))"

section \<open>The droplet manager (app/droplet.py)\<close>

definition SANDBOX_TAG :: string where
  "SANDBOX_TAG = ''sandbox-instance''"

definition SANDBOX_NAME :: string where
  "SANDBOX_NAME = ''sandbox''"

record droplet_manager =
  api_token :: string
  vpc_uuid :: string
  region :: string

text \<open>\<^verbatim>\<open>_request\<close>: the decoded body of a successful response, \<^verbatim>\<open>{}\<close> for an empty one.\<close>

definition request ::
  "'p network \<Rightarrow> http_method \<Rightarrow> endpoint \<Rightarrow> json option \<Rightarrow> 'p world \<Rightarrow> (exn + json) \<times> 'p world" where
  "request net m ep body w =
     (case send net (ApiRequest m ep body) w of
        (Raises msg, w') \<Rightarrow> (Inl (RequestError msg), w')
      | (Responds r, w') \<Rightarrow>
          (case status_error r of
             Some msg \<Rightarrow> (Inl (HTTPStatusError msg (content r)), w')
           | None \<Rightarrow>
               if content r \<noteq> [] then
                 (case decoded r of
                    Inl msg \<Rightarrow> (Inl (JSONDecodeError msg), w')
                  | Inr j \<Rightarrow> (Inr j, w'))
               else (Inr (JObj []), w')))"

text \<open>
  \<^verbatim>\<open>_find_sandbox_droplet\<close>: the whole body stands in \<^verbatim>\<open>try ... except Exception: pass\<close>,
  so every exception gives \<^verbatim>\<open>None\<close> (\<open>JNull\<close>).
\<close>

definition find_sandbox_droplet :: "'p network \<Rightarrow> 'p world \<Rightarrow> json \<times> 'p world" where
  "find_sandbox_droplet net w =
     (case request net GET (DropletsByTag SANDBOX_TAG) None w of
        (Inl e, w') \<Rightarrow> (JNull, w')
      | (Inr data, w') \<Rightarrow>
          (case py_get data ''droplets'' (JList []) of
             Inl e \<Rightarrow> (JNull, w')
           | Inr droplets \<Rightarrow>
               if truthy droplets then
                 (case py_first droplets of
                    Inl e \<Rightarrow> (JNull, w')
                  | Inr droplet \<Rightarrow> (droplet, w'))
               else (JNull, w')))"

text \<open>The loop of \<^verbatim>\<open>get_sandbox_status\<close> over the \<^verbatim>\<open>v4\<close> networks, with its two variables.\<close>

fun extract_ips :: "json list \<Rightarrow> json \<Rightarrow> json \<Rightarrow> exn + json \<times> json" where
  "extract_ips [] public_ip private_ip = Inr (public_ip, private_ip)"
| "extract_ips (network # rest) public_ip private_ip =
     and_then (py_get network ''type'' JNull) (\<lambda>ty.
       if ty = JStr ''public'' then
         and_then (py_get network ''ip_address'' JNull) (\<lambda>ip.
           extract_ips rest ip private_ip)
       else
         and_then (py_get network ''type'' JNull) (\<lambda>ty'.
           if ty' = JStr ''private'' then
             and_then (py_get network ''ip_address'' JNull) (\<lambda>ip.
               extract_ips rest public_ip ip)
           else extract_ips rest public_ip private_ip))"

definition not_created_status :: json where
  "not_created_status =
     JObj [(''running'', JBool False),
           (''status'', JStr ''not_created''),
           (''droplet_id'', JNull),
           (''ip_address'', JNull),
           (''private_ip'', JNull)]"

text \<open>The part of \<^verbatim>\<open>get_sandbox_status\<close> after the droplet is found.\<close>

definition status_of_droplet :: "json \<Rightarrow> exn + json" where
  "status_of_droplet droplet =
     and_then (py_get droplet ''networks'' (JObj [])) (\<lambda>networks.
     and_then (py_get networks ''v4'' (JList [])) (\<lambda>v4.
     and_then (py_iter v4) (\<lambda>items.
     and_then (extract_ips items JNull JNull) (\<lambda>ips.
     and_then (py_get droplet ''status'' JNull) (\<lambda>status_a.
     and_then (py_get droplet ''status'' JNull) (\<lambda>status_b.
     and_then (py_get droplet ''id'' JNull) (\<lambda>droplet_id.
     and_then (py_get droplet ''created_at'' JNull) (\<lambda>created.
     and_then (py_get droplet ''size'' (JObj [])) (\<lambda>size_obj.
     and_then (py_get size_obj ''slug'' JNull) (\<lambda>size_slug.
     and_then (py_get droplet ''region'' (JObj [])) (\<lambda>region_obj.
     and_then (py_get region_obj ''slug'' JNull) (\<lambda>region_slug.
       Inr (JObj [(''running'', JBool (status_a = JStr ''active'')),
                  (''status'', status_b),
                  (''droplet_id'', droplet_id),
                  (''ip_address'', fst ips),
                  (''private_ip'', snd ips),
                  (''created_at'', created),
                  (''size'', size_slug),
                  (''region'', region_slug)])))))))))))))"

definition get_sandbox_status :: "'p network \<Rightarrow> 'p world \<Rightarrow> (exn + json) \<times> 'p world" where
  "get_sandbox_status net w =
     (case find_sandbox_droplet net w of
        (droplet, w') \<Rightarrow>
          if \<not> truthy droplet then (Inr not_created_status, w')
          else (status_of_droplet droplet, w'))"

definition error_result :: "string \<Rightarrow> json" where
  "error_result msg = JObj [(''status'', JStr ''error''), (''message'', JStr msg)]"

text \<open>
  \<^verbatim>\<open>except httpx.HTTPStatusError as e\<close>: the handler gets \<^verbatim>\<open>e.response.text\<close>; any other
  exception passes.
\<close>

definition except_HTTPStatusError ::
  "(exn + json) \<times> 'w \<Rightarrow> (string \<Rightarrow> json) \<Rightarrow> (exn + json) \<times> 'w" where
  "except_HTTPStatusError r handler =
     (case r of
        (Inl (HTTPStatusError msg body), w) \<Rightarrow> (Inr (handler body), w)
      | _ \<Rightarrow> r)"

text \<open>\<^verbatim>\<open>except Exception as e\<close>: the handler gets \<^verbatim>\<open>str(e)\<close>.\<close>

definition except_Exception ::
  "(exn + json) \<times> 'w \<Rightarrow> (string \<Rightarrow> json) \<Rightarrow> (exn + json) \<times> 'w" where
  "except_Exception r handler =
     (case r of
        (Inl e, w) \<Rightarrow> (Inr (handler (str_exn e)), w)
      | _ \<Rightarrow> r)"

definition spawn_payload :: "droplet_manager \<Rightarrow> string \<Rightarrow> string \<Rightarrow> json" where
  "spawn_payload self snapshot_id size_slug =
     JObj [(''name'', JStr SANDBOX_NAME),
           (''region'', JStr (region self)),
           (''size'', JStr size_slug),
           (''image'', JStr snapshot_id),
           (''vpc_uuid'', JStr (vpc_uuid self)),
           (''tags'', JList [JStr SANDBOX_TAG]),
           (''monitoring'', JBool True)]"

definition spawn_sandbox ::
  "droplet_manager \<Rightarrow> string \<Rightarrow> string \<Rightarrow> 'p network \<Rightarrow> 'p world \<Rightarrow> (exn + json) \<times> 'p world" where
  "spawn_sandbox self snapshot_id size_slug net w =
     (case find_sandbox_droplet net w of
        (existing, w1) \<Rightarrow>
          if truthy existing then
            (case py_get existing ''id'' JNull of
               Inl e \<Rightarrow> (Inl e, w1)
             | Inr droplet_id \<Rightarrow>
                 (Inr (JObj [(''status'', JStr ''error''),
                             (''message'', JStr ''Sandbox already running''),
                             (''droplet_id'', droplet_id)]), w1))
          else
            except_HTTPStatusError
              (case request net POST Droplets (Some (spawn_payload self snapshot_id size_slug)) w1 of
                 (Inl e, w2) \<Rightarrow> (Inl e, w2)
               | (Inr data, w2) \<Rightarrow>
                   (and_then (py_get data ''droplet'' (JObj [])) (\<lambda>droplet.
                    and_then (py_get droplet ''id'' JNull) (\<lambda>droplet_id.
                      Inr (JObj [(''status'', JStr ''creating''),
                                 (''message'', JStr ''Sandbox droplet is being created''),
                                 (''droplet_id'', droplet_id)]))), w2))
              (\<lambda>body. error_result (''Failed to create droplet: '' @ body)))"

definition kill_sandbox :: "'p network \<Rightarrow> 'p world \<Rightarrow> (exn + json) \<times> 'p world" where
  "kill_sandbox net w =
     (case find_sandbox_droplet net w of
        (droplet, w1) \<Rightarrow>
          if \<not> truthy droplet then
            (Inr (JObj [(''status'', JStr ''ok''), (''message'', JStr ''No sandbox running'')]), w1)
          else
            (case py_get droplet ''id'' JNull of
               Inl e \<Rightarrow> (Inl e, w1)
             | Inr droplet_id \<Rightarrow>
                 except_HTTPStatusError
                   (case request net DELETE (Droplet droplet_id) None w1 of
                      (Inl e, w2) \<Rightarrow> (Inl e, w2)
                    | (Inr _, w2) \<Rightarrow>
                        (Inr (JObj [(''status'', JStr ''ok''),
                                    (''message'', JStr ''Sandbox droplet destroyed''),
                                    (''droplet_id'', droplet_id)]), w2))
                   (\<lambda>body. error_result (''Failed to destroy droplet: '' @ body))))"

text \<open>
  \<^verbatim>\<open>apply_network_config\<close>: the status query and the two checks stand before the
  \<^verbatim>\<open>try\<close>; the POST to the agent takes \<^verbatim>\<open>response.json()\<close> of whatever response comes.
\<close>

definition apply_network_config :: "json \<Rightarrow> 'p network \<Rightarrow> 'p world \<Rightarrow> (exn + json) \<times> 'p world" where
  "apply_network_config config net w =
     (case get_sandbox_status net w of
        (Inl e, w1) \<Rightarrow> (Inl e, w1)
      | (Inr status, w1) \<Rightarrow>
          (case py_get status ''running'' JNull of
             Inl e \<Rightarrow> (Inl e, w1)
           | Inr running \<Rightarrow>
               if \<not> truthy running then (Inr (error_result ''Sandbox not running''), w1)
               else
                 (case py_get status ''private_ip'' JNull of
                    Inl e \<Rightarrow> (Inl e, w1)
                  | Inr private_ip \<Rightarrow>
                      if \<not> truthy private_ip then (Inr (error_result ''No private IP for sandbox''), w1)
                      else
                        except_Exception
                          (case send net (AgentApply private_ip config) w1 of
                             (Raises msg, w2) \<Rightarrow> (Inl (RequestError msg), w2)
                           | (Responds r, w2) \<Rightarrow>
                               (case decoded r of
                                  Inl msg \<Rightarrow> (Inl (JSONDecodeError msg), w2)
                                | Inr j \<Rightarrow> (Inr j, w2)))
                          error_result)))"

text \<open>\<^verbatim>\<open>_get_sandbox_user_data\<close>: the cloud-init text, a constant.\<close>

definition get_sandbox_user_data :: string where
  "get_sandbox_user_data =
     concat (map (\<lambda>line. line @ [CHR 0x0A])
       [''#cloud-config'',
        ''package_update: true'',
        ''packages:'',
        ''  - docker.io'',
        ''  - docker-compose'',
        ''  - iptables-persistent'',
        [],
        ''runcmd:'',
        ''  - systemctl enable docker'',
        ''  - systemctl start docker'',
        ''  - mkdir -p /opt/sandbox'',
        ''  - echo '' @ [CHR 0x22] @ ''Sandbox ready'' @ [CHR 0x22] @ '' > /opt/sandbox/ready''])"

definition builder_payload :: "droplet_manager \<Rightarrow> json" where
  "builder_payload self =
     JObj [(''name'', JStr ''sandbox-builder''),
           (''region'', JStr (region self)),
           (''size'', JStr ''s-2vcpu-2gb''),
           (''image'', JStr ''ubuntu-24-04-x64''),
           (''vpc_uuid'', JStr (vpc_uuid self)),
           (''tags'', JList [JStr ''sandbox-builder'']),
           (''user_data'', JStr get_sandbox_user_data)]"

text \<open>
  The body of the \<^verbatim>\<open>try\<close> of \<^verbatim>\<open>build_sandbox_snapshot\<close>. \<open>stamp\<close> is the decimal text
  of \<^verbatim>\<open>int(asyncio.get_event_loop().time())\<close>; the three \<^verbatim>\<open>asyncio.sleep\<close> send nothing.
\<close>

definition build_steps ::
  "droplet_manager \<Rightarrow> string \<Rightarrow> 'p network \<Rightarrow> 'p world \<Rightarrow> (exn + json) \<times> 'p world" where
  "build_steps self stamp net w =
     (case request net POST Droplets (Some (builder_payload self)) w of
        (Inl e, w1) \<Rightarrow> (Inl e, w1)
      | (Inr data, w1) \<Rightarrow>
     (case and_then (py_get data ''droplet'' (JObj [])) (\<lambda>droplet. py_get droplet ''id'' JNull) of
        Inl e \<Rightarrow> (Inl e, w1)
      | Inr droplet_id \<Rightarrow>
     if \<not> truthy droplet_id then (Inr (error_result ''Failed to create builder droplet''), w1)
     else
     (case request net POST (DropletActions droplet_id)
             (Some (JObj [(''type'', JStr ''shutdown'')])) w1 of
        (Inl e, w2) \<Rightarrow> (Inl e, w2)
      | (Inr _, w2) \<Rightarrow>
     (case request net POST (DropletActions droplet_id)
             (Some (JObj [(''type'', JStr ''snapshot''), (''name'', JStr (''sandbox-'' @ stamp))])) w2 of
        (Inl e, w3) \<Rightarrow> (Inl e, w3)
      | (Inr snapshot_data, w3) \<Rightarrow>
     (case request net GET (DropletSnapshots droplet_id) None w3 of
        (Inl e, w4) \<Rightarrow> (Inl e, w4)
      | (Inr snapshots, w4) \<Rightarrow>
     (case py_get snapshots ''snapshots'' (JList []) of
        Inl e \<Rightarrow> (Inl e, w4)
      | Inr snapshot_list \<Rightarrow>
     (case request net DELETE (Droplet droplet_id) None w4 of
        (Inl e, w5) \<Rightarrow> (Inl e, w5)
      | (Inr _, w5) \<Rightarrow>
     if truthy snapshot_list then
       (case and_then (py_last snapshot_list) (\<lambda>snapshot. py_get snapshot ''id'' JNull) of
          Inl e \<Rightarrow> (Inl e, w5)
        | Inr snapshot_id \<Rightarrow>
            (Inr (JObj [(''status'', JStr ''ok''),
                        (''snapshot_id'', snapshot_id),
                        (''message'', JStr ''Snapshot created successfully'')]), w5))
     else (Inr (error_result ''Snapshot not found''), w5))))))))"

definition build_sandbox_snapshot ::
  "droplet_manager \<Rightarrow> string \<Rightarrow> 'p network \<Rightarrow> 'p world \<Rightarrow> (exn + json) \<times> 'p world" where
  "build_sandbox_snapshot self stamp net w =
     except_Exception (build_steps self stamp net w) error_result"

section \<open>The network configuration endpoint (app/main.py)\<close>

text \<open>
  \<^verbatim>\<open>NetworkConfigUpdate\<close> has two \<^verbatim>\<open>dict\<close> fields; \<^verbatim>\<open>model_dump()\<close> gives the dictionary of
  both. The file \<^verbatim>\<open>network_config.json\<close> holds the dictionary last saved, if any.
\<close>

record NetworkConfigUpdate =
  containers :: "(string \<times> json) list"
  inter_container :: "(string \<times> json) list"

definition model_dump :: "NetworkConfigUpdate \<Rightarrow> json" where
  "model_dump config =
     JObj [(''containers'', JObj (containers config)),
           (''inter_container'', JObj (inter_container config))]"

definition save_network_config :: "json \<Rightarrow> json option" where
  "save_network_config config = Some config"

text \<open>
  \<^verbatim>\<open>update_network_config\<close>: the result, the configuration file and the world afterwards.
  The value that \<^verbatim>\<open>apply_network_config\<close> returns is not bound to a name.
\<close>

definition update_network_config ::
  "NetworkConfigUpdate \<Rightarrow> 'p network \<Rightarrow> json option \<times> 'p world
     \<Rightarrow> (exn + json) \<times> json option \<times> 'p world" where
  "update_network_config config net st =
     (let file = save_network_config (model_dump config) in
      case get_sandbox_status net (snd st) of
        (Inl e, w1) \<Rightarrow> (Inl e, file, w1)
      | (Inr status, w1) \<Rightarrow>
          (case py_get status ''running'' JNull of
             Inl e \<Rightarrow> (Inl e, file, w1)
           | Inr running \<Rightarrow>
               if truthy running then
                 (case apply_network_config (model_dump config) net w1 of
                    (Inl e, w2) \<Rightarrow> (Inl e, file, w2)
                  | (Inr applied, w2) \<Rightarrow>
                      (Inr (JObj [(''status'', JStr ''ok''), (''config'', model_dump config)]), file, w2))
               else
                 (Inr (JObj [(''status'', JStr ''ok''), (''config'', model_dump config)]), file, w1)))"

section \<open>Session store (app/auth.py)\<close>

text \<open>
  A session record is the dictionary \<^verbatim>\<open>{"user", "created_at", "expires_at"}\<close> that
  \<^verbatim>\<open>create_session\<close> writes. The two timestamps are stored as
  \<^verbatim>\<open>datetime.isoformat()\<close> strings of naive UTC datetimes and compared as strings by the
  source; on such strings the lexicographic order is the chronological one, so the model
  keeps the instant itself, counted in microseconds.
\<close>

type_synonym timestamp = int

record session =
  user :: string
  created_at :: timestamp
  expires_at :: timestamp

text \<open>\<^verbatim>\<open>SESSION_DURATION_HOURS = 24\<close>, as the \<^verbatim>\<open>timedelta\<close> added to the clock.\<close>

definition SESSION_DURATION_HOURS :: int where
  "SESSION_DURATION_HOURS = 24"

definition session_duration :: int where
  "session_duration = SESSION_DURATION_HOURS * 3600 * 1000000"

text \<open>
  The file \<^verbatim>\<open>sessions.json\<close> of the data directory: it may not exist, it may hold text that
  \<^verbatim>\<open>json.loads\<close> rejects, or it holds the dictionary from token digests to records.
\<close>

datatype sessions_file =
  NoFile
| Undecodable
| Stored "string \<rightharpoonup> session"

definition load_sessions :: "sessions_file \<Rightarrow> (string \<rightharpoonup> session)" where
  "load_sessions f = (case f of NoFile \<Rightarrow> Map.empty | Undecodable \<Rightarrow> Map.empty | Stored m \<Rightarrow> m)"

definition save_sessions :: "(string \<rightharpoonup> session) \<Rightarrow> sessions_file" where
  "save_sessions sessions = Stored sessions"

text \<open>The dictionary comprehension keeps the entries with \<^verbatim>\<open>expires_at > now\<close>.\<close>

definition clean_expired_sessions :: "timestamp \<Rightarrow> (string \<rightharpoonup> session) \<Rightarrow> (string \<rightharpoonup> session)" where
  "clean_expired_sessions now sessions =
     (\<lambda>sid. case sessions sid of
               None \<Rightarrow> None
             | Some d \<Rightarrow> if expires_at d > now then Some d else None)"

text \<open>
  \<^verbatim>\<open>create_session\<close>. The digest function (\<^verbatim>\<open>hashlib.sha256(...).hexdigest()\<close>) is the
  parameter \<open>digest\<close>, the token drawn by \<^verbatim>\<open>secrets.token_urlsafe(32)\<close> is the parameter
  \<open>session_id\<close>, and the three readings of \<^verbatim>\<open>datetime.utcnow()\<close> are, in the order the
  source takes them, \<open>t_clean\<close> (inside \<^verbatim>\<open>_clean_expired_sessions\<close>), \<open>t_expiry\<close> and
  \<open>t_created\<close>. The result is the token and the file as written back.
\<close>

definition create_session ::
  "(string \<Rightarrow> string) \<Rightarrow> string \<Rightarrow> string \<Rightarrow> timestamp \<Rightarrow> timestamp \<Rightarrow> timestamp
     \<Rightarrow> sessions_file \<Rightarrow> string \<times> sessions_file" where
  "create_session digest session_id usr t_clean t_expiry t_created f =
     (let session_hash = digest session_id;
          sessions = load_sessions f;
          sessions = clean_expired_sessions t_clean sessions;
          expires = t_expiry + session_duration;
          sessions = sessions(session_hash \<mapsto>
                       \<lparr>user = usr, created_at = t_created, expires_at = expires\<rparr>)
      in (session_id, save_sessions sessions))"

text \<open>\<^verbatim>\<open>verify_session\<close>: the answer and the file afterwards.\<close>

definition verify_session ::
  "(string \<Rightarrow> string) \<Rightarrow> string \<Rightarrow> timestamp \<Rightarrow> sessions_file \<Rightarrow> bool \<times> sessions_file" where
  "verify_session digest session_id now f =
     (if session_id = [] then (False, f)
      else
        let session_hash = digest session_id;
            sessions = load_sessions f
        in case sessions session_hash of
             None \<Rightarrow> (False, f)
           | Some s \<Rightarrow>
               if expires_at s < now
               then (False, save_sessions (sessions(session_hash := None)))
               else (True, f))"

text \<open>\<^verbatim>\<open>get_session_user\<close> only reads the file.\<close>

definition get_session_user ::
  "(string \<Rightarrow> string) \<Rightarrow> string \<Rightarrow> sessions_file \<Rightarrow> string option" where
  "get_session_user digest session_id f =
     (if session_id = [] then None
      else
        let session_hash = digest session_id;
            sessions = load_sessions f
        in case sessions session_hash of
             None \<Rightarrow> None
           | Some s \<Rightarrow> Some (user s))"

text \<open>\<^verbatim>\<open>revoke_session\<close>: the answer and the file afterwards.\<close>

definition revoke_session ::
  "(string \<Rightarrow> string) \<Rightarrow> string \<Rightarrow> sessions_file \<Rightarrow> bool \<times> sessions_file" where
  "revoke_session digest session_id f =
     (if session_id = [] then (False, f)
      else
        let session_hash = digest session_id;
            sessions = load_sessions f
        in if session_hash \<in> dom sessions
           then (True, save_sessions (sessions(session_hash := None)))
           else (False, f))"

section \<open>Notions used to state the properties\<close>

text \<open>The two provider requests of \<^verbatim>\<open>spawn_sandbox\<close>: the query by tag and the creation.\<close>

definition list_request :: http_request where
  "list_request = ApiRequest GET (DropletsByTag SANDBOX_TAG) None"

definition create_request :: "droplet_manager \<Rightarrow> string \<Rightarrow> string \<Rightarrow> http_request" where
  "create_request self snapshot_id size_slug =
     ApiRequest POST Droplets (Some (spawn_payload self snapshot_id size_slug))"

text \<open>The value of a dictionary under a key, \<^verbatim>\<open>None\<close> when the key is absent.\<close>

definition dict_value :: "(string \<times> json) list \<Rightarrow> string \<Rightarrow> json" where
  "dict_value kvs key = (case map_of kvs key of Some v \<Rightarrow> v | None \<Rightarrow> JNull)"

definition is_object :: "json \<Rightarrow> bool" where
  "is_object x = (case x of JObj kvs \<Rightarrow> True | _ \<Rightarrow> False)"

definition entry_value :: "json \<Rightarrow> string \<Rightarrow> json" where
  "entry_value x key = (case x of JObj kvs \<Rightarrow> dict_value kvs key | _ \<Rightarrow> JNull)"

text \<open>
  The addresses of the entries of a network attachment list that have a given type, in
  the order of the list, and the last element of a list of values (\<^verbatim>\<open>None\<close> for none).
\<close>

definition ips_of_type :: "string \<Rightarrow> json list \<Rightarrow> json list" where
  "ips_of_type ty nets =
     map (\<lambda>n. entry_value n ''ip_address'') (filter (\<lambda>n. entry_value n ''type'' = JStr ty) nets)"

definition last_or :: "json \<Rightarrow> json list \<Rightarrow> json" where
  "last_or dflt xs = (if xs = [] then dflt else last xs)"

text \<open>The failures of the HTTP layer, among the exceptions.\<close>

definition http_layer_error :: "exn \<Rightarrow> bool" where
  "http_layer_error e =
     (case e of
        HTTPStatusError msg body \<Rightarrow> True
      | RequestError msg \<Rightarrow> True
      | JSONDecodeError msg \<Rightarrow> True
      | _ \<Rightarrow> False)"

definition is_HTTPStatusError :: "exn \<Rightarrow> bool" where
  "is_HTTPStatusError e = (case e of HTTPStatusError msg body \<Rightarrow> True | _ \<Rightarrow> False)"

section \<open>Example providers\<close>

text \<open>
  A provider that cannot be reached: the client raises on every request.
\<close>

definition unreachable :: "unit network" where
  "unreachable rq p = (Raises ''connection refused'', p)"

text \<open>
  A small provider whose state is the list of its instances. It answers the query by tag
  with that list, creates the instance \<open>new_droplet\<close> on a creation request, removes an
  instance on a destroy request and rejects every instance action with an HTTP status
  error; the agent of the sandbox does not answer. The text of a JSON body stands for its
  serialisation.
\<close>

definition json_response :: "json \<Rightarrow> response" where
  "json_response j = \<lparr>status_error = None, content = ''(json)'', decoded = Inr j\<rparr>"

definition empty_response :: response where
  "empty_response = \<lparr>status_error = None, content = [], decoded = Inl ''Expecting value''\<rparr>"

definition rejected :: response where
  "rejected =
     \<lparr>status_error = Some ''Client error 422 Unprocessable Entity'',
      content = ''droplet is not ready'',
      decoded = Inl ''Expecting value''\<rparr>"

definition new_droplet :: json where
  "new_droplet = JObj [(''id'', JInt 42), (''status'', JStr ''new'')]"

fun small_provider :: "json list network" where
  "small_provider (ApiRequest GET (DropletsByTag tag) body) p =
     (Responds (json_response (JObj [(''droplets'', JList p)])), p)"
| "small_provider (ApiRequest POST Droplets body) p =
     (Responds (json_response (JObj [(''droplet'', new_droplet)])), p @ [new_droplet])"
| "small_provider (ApiRequest DELETE (Droplet i) body) p =
     (Responds empty_response, filter (\<lambda>d. entry_value d ''id'' \<noteq> i) p)"
| "small_provider (ApiRequest POST (DropletActions i) body) p = (Responds rejected, p)"
| "small_provider (AgentApply ip config) p = (Raises ''timed out'', p)"
| "small_provider rq p = (Responds (json_response (JObj [])), p)"

text \<open>An active instance with two public and two private network attachments.\<close>

definition two_homed_v4 :: "json list" where
  "two_homed_v4 =
     [JObj [(''type'', JStr ''public''), (''ip_address'', JStr ''192.0.2.1'')],
      JObj [(''type'', JStr ''private''), (''ip_address'', JStr ''10.0.0.1'')],
      JObj [(''type'', JStr ''public''), (''ip_address'', JStr ''192.0.2.2'')],
      JObj [(''type'', JStr ''private''), (''ip_address'', JStr ''10.0.0.2'')]]"

definition two_homed_fields :: "(string \<times> json) list" where
  "two_homed_fields =
     [(''id'', JInt 7),
      (''status'', JStr ''active''),
      (''networks'', JObj [(''v4'', JList two_homed_v4)])]"

definition two_homed :: json where
  "two_homed = JObj two_homed_fields"

definition start :: "'p \<Rightarrow> 'p world" where
  "start p = \<lparr>peer = p, sent = []\<rparr>"

definition example_manager :: droplet_manager where
  "example_manager = \<lparr>api_token = ''token'', vpc_uuid = ''vpc-1'', region = ''nyc1''\<rparr>"

text \<open>A provider that answers the query by tag and rejects every other request.\<close>

fun read_only_provider :: "json list network" where
  "read_only_provider (ApiRequest GET (DropletsByTag tag) body) p =
     (Responds (json_response (JObj [(''droplets'', JList p)])), p)"
| "read_only_provider rq p = (Responds rejected, p)"

text \<open>A provider that rejects every request.\<close>

definition failing_provider :: "unit network" where
  "failing_provider rq p = (Responds rejected, p)"

section \<open>Properties of the droplet manager\<close>

lemma send_world:
  "snd (send net rq w) = \<lparr>peer = snd (net rq (peer w)), sent = sent w @ [rq]\<rparr>"
  by (simp add: send_def split: prod.splits)

lemma request_world:
  "snd (request net m ep body w) = snd (send net (ApiRequest m ep body) w)"
  by (simp add: request_def split: prod.splits outcome.splits option.splits sum.splits)

lemma request_sent:
  "sent (snd (request net m ep body w)) = sent w @ [ApiRequest m ep body]"
  by (simp add: request_world send_world)

lemma find_sandbox_droplet_world:
  "snd (find_sandbox_droplet net w) = snd (request net GET (DropletsByTag SANDBOX_TAG) None w)"
  by (simp add: find_sandbox_droplet_def split: prod.splits sum.splits)

lemma find_sandbox_droplet_sent:
  "sent (snd (find_sandbox_droplet net w)) = sent w @ [list_request]"
  by (simp add: find_sandbox_droplet_world request_sent list_request_def)

lemma find_sandbox_droplet_failed:
  assumes "fst (request net GET (DropletsByTag SANDBOX_TAG) None w) = Inl e"
  shows "fst (find_sandbox_droplet net w) = JNull"
proof (cases "request net GET (DropletsByTag SANDBOX_TAG) None w")
  case (Pair r w1)
  with assms show ?thesis by (simp add: find_sandbox_droplet_def)
qed

lemma find_sandbox_droplet_empty:
  assumes "fst (request net GET (DropletsByTag SANDBOX_TAG) None w) = Inr data"
    and "py_get data ''droplets'' (JList []) = Inr (JList [])"
  shows "fst (find_sandbox_droplet net w) = JNull"
proof (cases "request net GET (DropletsByTag SANDBOX_TAG) None w")
  case (Pair r w1)
  with assms show ?thesis by (simp add: find_sandbox_droplet_def)
qed


lemma except_HTTPStatusError_world: "snd (except_HTTPStatusError r h) = snd r"
  by (simp add: except_HTTPStatusError_def split: prod.splits sum.splits exn.splits)

lemma except_Exception_world: "snd (except_Exception r h) = snd r"
  by (simp add: except_Exception_def split: prod.splits sum.splits)

lemma get_sandbox_status_world:
  "snd (get_sandbox_status net w) = snd (find_sandbox_droplet net w)"
  by (simp add: get_sandbox_status_def split: prod.splits)

lemma get_sandbox_status_not_found:
  "\<not> truthy (fst (find_sandbox_droplet net w)) \<Longrightarrow>
   fst (get_sandbox_status net w) = Inr not_created_status"
  by (cases "find_sandbox_droplet net w") (simp add: get_sandbox_status_def)

lemma kill_sandbox_not_found:
  "\<not> truthy (fst (find_sandbox_droplet net w)) \<Longrightarrow>
   kill_sandbox net w
     = (Inr (JObj [(''status'', JStr ''ok''), (''message'', JStr ''No sandbox running'')]),
        snd (find_sandbox_droplet net w))"
  by (cases "find_sandbox_droplet net w") (simp add: kill_sandbox_def)

lemma spawn_sandbox_not_found_sent:
  "\<not> truthy (fst (find_sandbox_droplet net w)) \<Longrightarrow>
   sent (snd (spawn_sandbox self snapshot_id size_slug net w))
     = sent w @ [list_request, create_request self snapshot_id size_slug]"
proof -
  assume nf: "\<not> truthy (fst (find_sandbox_droplet net w))"
  obtain x w1 where f: "find_sandbox_droplet net w = (x, w1)" by (cases "find_sandbox_droplet net w")
  obtain r w2 where c: "request net POST Droplets (Some (spawn_payload self snapshot_id size_slug)) w1 = (r, w2)"
    by (cases "request net POST Droplets (Some (spawn_payload self snapshot_id size_slug)) w1")
  from f have s1: "sent w1 = sent w @ [list_request]"
    using find_sandbox_droplet_sent [of net w] by simp
  from c have s2: "sent w2 = sent w1 @ [create_request self snapshot_id size_slug]"
    using request_sent [of net POST Droplets "Some (spawn_payload self snapshot_id size_slug)" w1]
    by (simp add: create_request_def)
  from nf f c have "snd (spawn_sandbox self snapshot_id size_slug net w) = w2"
    by (simp add: spawn_sandbox_def except_HTTPStatusError_world split: sum.splits)
  with s1 s2 show ?thesis by simp
qed


lemma extract_ips_objects:
  "\<forall>n \<in> set nets. is_object n \<Longrightarrow>
   extract_ips nets public_ip private_ip
     = Inr (last_or public_ip (ips_of_type ''public'' nets),
            last_or private_ip (ips_of_type ''private'' nets))"
proof (induction nets arbitrary: public_ip private_ip)
  case Nil
  then show ?case by (simp add: ips_of_type_def last_or_def)
next
  case (Cons n nets)
  then obtain kvs where n: "n = JObj kvs"
    by (cases n) (simp_all add: is_object_def)
  from Cons have rest: "\<forall>n \<in> set nets. is_object n" by simp
  show ?case
    using Cons.IH [OF rest]
    by (simp add: n py_get_def and_then_def ips_of_type_def last_or_def entry_value_def dict_value_def)
qed

lemma status_of_droplet_object:
  assumes "map_of kvs ''networks'' = Some (JObj nkvs)"
    and "map_of nkvs ''v4'' = Some (JList nets)"
    and "\<forall>n \<in> set nets. is_object n"
    and "is_object (case map_of kvs ''size'' of Some v \<Rightarrow> v | None \<Rightarrow> JObj [])"
    and "is_object (case map_of kvs ''region'' of Some v \<Rightarrow> v | None \<Rightarrow> JObj [])"
  shows "status_of_droplet (JObj kvs)
     = Inr (JObj [(''running'', JBool (dict_value kvs ''status'' = JStr ''active'')),
                  (''status'', dict_value kvs ''status''),
                  (''droplet_id'', dict_value kvs ''id''),
                  (''ip_address'', last_or JNull (ips_of_type ''public'' nets)),
                  (''private_ip'', last_or JNull (ips_of_type ''private'' nets)),
                  (''created_at'', dict_value kvs ''created_at''),
                  (''size'', entry_value (case map_of kvs ''size'' of Some v \<Rightarrow> v | None \<Rightarrow> JObj []) ''slug''),
                  (''region'', entry_value (case map_of kvs ''region'' of Some v \<Rightarrow> v | None \<Rightarrow> JObj []) ''slug'')])"
proof -
  obtain skvs where s: "(case map_of kvs ''size'' of Some v \<Rightarrow> v | None \<Rightarrow> JObj []) = JObj skvs"
    using assms(4) by (cases "case map_of kvs ''size'' of Some v \<Rightarrow> v | None \<Rightarrow> JObj []") (simp_all add: is_object_def)
  obtain rkvs where r: "(case map_of kvs ''region'' of Some v \<Rightarrow> v | None \<Rightarrow> JObj []) = JObj rkvs"
    using assms(5) by (cases "case map_of kvs ''region'' of Some v \<Rightarrow> v | None \<Rightarrow> JObj []") (simp_all add: is_object_def)
  show ?thesis
    unfolding status_of_droplet_def
    by (simp add: py_get_def and_then_def py_iter_def assms(1,2) extract_ips_objects [OF assms(3)]
        s r dict_value_def entry_value_def)
qed


lemma py_get_error: "py_get x key dflt = Inl e \<Longrightarrow> \<not> http_layer_error e"
  by (cases x) (auto simp: py_get_def http_layer_error_def)

lemma py_iter_error: "py_iter x = Inl e \<Longrightarrow> \<not> http_layer_error e"
  by (cases x) (auto simp: py_iter_def http_layer_error_def)

lemma extract_ips_error:
  "extract_ips nets public_ip private_ip = Inl e \<Longrightarrow> \<not> http_layer_error e"
proof (induction nets arbitrary: public_ip private_ip)
  case Nil
  then show ?case by simp
next
  case (Cons n nets)
  then show ?case
    by (auto simp: and_then_def split: sum.splits if_splits dest: py_get_error)
qed

lemma status_of_droplet_error:
  "status_of_droplet droplet = Inl e \<Longrightarrow> \<not> http_layer_error e"
  unfolding status_of_droplet_def
  by (auto simp: and_then_def split: sum.splits dest: py_get_error py_iter_error extract_ips_error)

lemma get_sandbox_status_error:
  "fst (get_sandbox_status net w) = Inl e \<Longrightarrow> \<not> http_layer_error e"
  by (cases "find_sandbox_droplet net w")
     (auto simp: get_sandbox_status_def split: if_splits dest: status_of_droplet_error)

lemma except_Exception_returns: "\<exists>r. fst (except_Exception x handler) = Inr r"
  by (cases x) (auto simp: except_Exception_def split: sum.splits)

lemma except_Exception_handles:
  "fst x = Inl e \<Longrightarrow> fst (except_Exception x handler) = Inr (handler (str_exn e))"
  by (cases x) (auto simp: except_Exception_def)

lemma except_HTTPStatusError_error:
  "fst (except_HTTPStatusError x handler) = Inl e \<Longrightarrow> \<not> is_HTTPStatusError e"
  by (cases x) (auto simp: except_HTTPStatusError_def is_HTTPStatusError_def split: sum.splits exn.splits)

lemma except_HTTPStatusError_handles:
  "fst x = Inl (HTTPStatusError msg body) \<Longrightarrow> fst (except_HTTPStatusError x handler) = Inr (handler body)"
  by (cases x) (auto simp: except_HTTPStatusError_def)

lemma py_get_not_HTTPStatusError: "py_get x key dflt = Inl e \<Longrightarrow> \<not> is_HTTPStatusError e"
  by (cases x) (auto simp: py_get_def is_HTTPStatusError_def)

lemma request_rejected:
  assumes "fst (net (ApiRequest m ep body) (peer w)) = Responds r"
    and "status_error r = Some msg"
  shows "fst (request net m ep body w) = Inl (HTTPStatusError msg (content r))"
  using assms
  by (cases "net (ApiRequest m ep body) (peer w)") (simp add: request_def send_def)

lemma apply_network_config_error:
  "fst (apply_network_config config net w) = Inl e \<Longrightarrow> \<not> http_layer_error e"
proof (cases "get_sandbox_status net w")
  case (Pair r w1)
  assume a: "fst (apply_network_config config net w) = Inl e"
  show ?thesis
  proof (cases r)
    case (Inl e')
    with Pair a have "e' = e" by (simp add: apply_network_config_def)
    with Pair Inl show ?thesis
      using get_sandbox_status_error [of net w e] by simp
  next
    case (Inr st)
    with Pair a show ?thesis
      using except_Exception_returns
        [of "case send net (AgentApply (projr (py_get st ''private_ip'' JNull)) config) w1 of
               (Raises msg, w2) \<Rightarrow> (Inl (RequestError msg), w2)
             | (Responds r, w2) \<Rightarrow>
                 (case decoded r of
                    Inl msg \<Rightarrow> (Inl (JSONDecodeError msg), w2)
                  | Inr j \<Rightarrow> (Inr j, w2))" error_result]
      by (auto simp: apply_network_config_def split: sum.splits if_splits dest: py_get_error)
  qed
qed

lemma spawn_sandbox_error:
  "fst (spawn_sandbox self snapshot_id size_slug net w) = Inl e \<Longrightarrow> \<not> is_HTTPStatusError e"
  by (cases "find_sandbox_droplet net w")
     (auto simp: spawn_sandbox_def split: if_splits sum.splits
           dest: py_get_not_HTTPStatusError except_HTTPStatusError_error)

lemma kill_sandbox_error:
  "fst (kill_sandbox net w) = Inl e \<Longrightarrow> \<not> is_HTTPStatusError e"
  by (cases "find_sandbox_droplet net w")
     (auto simp: kill_sandbox_def split: if_splits sum.splits
           dest: py_get_not_HTTPStatusError except_HTTPStatusError_error)

lemma spawn_sandbox_rejected:
  assumes "\<not> truthy (fst (find_sandbox_droplet net w))"
    and "fst (net (create_request self snapshot_id size_slug) (peer (snd (find_sandbox_droplet net w))))
           = Responds r"
    and "status_error r = Some msg"
  shows "fst (spawn_sandbox self snapshot_id size_slug net w)
           = Inr (error_result (''Failed to create droplet: '' @ content r))"
proof (cases "find_sandbox_droplet net w")
  case (Pair x w1)
  with assms(2,3) have "fst (request net POST Droplets (Some (spawn_payload self snapshot_id size_slug)) w1)
      = Inl (HTTPStatusError msg (content r))"
    by (simp add: request_rejected create_request_def)
  then have "fst (case request net POST Droplets (Some (spawn_payload self snapshot_id size_slug)) w1 of
                 (Inl e, w2) \<Rightarrow> (Inl e, w2)
               | (Inr data, w2) \<Rightarrow>
                   (and_then (py_get data ''droplet'' (JObj [])) (\<lambda>droplet.
                    and_then (py_get droplet ''id'' JNull) (\<lambda>droplet_id.
                      Inr (JObj [(''status'', JStr ''creating''),
                                 (''message'', JStr ''Sandbox droplet is being created''),
                                 (''droplet_id'', droplet_id)]))), w2))
      = Inl (HTTPStatusError msg (content r))"
    by (cases "request net POST Droplets (Some (spawn_payload self snapshot_id size_slug)) w1") simp
  with Pair assms(1) show ?thesis
    by (simp add: spawn_sandbox_def except_HTTPStatusError_handles)
qed

lemma kill_sandbox_rejected:
  assumes "fst (find_sandbox_droplet net w) = JObj attrs"
    and "attrs \<noteq> []"
    and "fst (net (ApiRequest DELETE (Droplet (dict_value attrs ''id'')) None)
               (peer (snd (find_sandbox_droplet net w)))) = Responds r"
    and "status_error r = Some msg"
  shows "fst (kill_sandbox net w)
           = Inr (error_result (''Failed to destroy droplet: '' @ content r))"
proof (cases "find_sandbox_droplet net w")
  case (Pair x w1)
  with assms(3,4) have "fst (request net DELETE (Droplet (dict_value attrs ''id'')) None w1)
      = Inl (HTTPStatusError msg (content r))"
    by (simp add: request_rejected)
  then have "fst (case request net DELETE (Droplet (dict_value attrs ''id'')) None w1 of
                      (Inl e, w2) \<Rightarrow> (Inl e, w2)
                    | (Inr _, w2) \<Rightarrow>
                        (Inr (JObj [(''status'', JStr ''ok''),
                                    (''message'', JStr ''Sandbox droplet destroyed''),
                                    (''droplet_id'', dict_value attrs ''id'')]), w2))
      = Inl (HTTPStatusError msg (content r))"
    by (cases "request net DELETE (Droplet (dict_value attrs ''id'')) None w1") simp
  moreover have "py_get (JObj attrs) ''id'' JNull = Inr (dict_value attrs ''id'')"
    by (simp add: py_get_def dict_value_def)
  ultimately show ?thesis
    using Pair assms(1,2) by (simp add: kill_sandbox_def except_HTTPStatusError_handles)
qed


lemma py_get_truthy:
  "truthy (entry_value x key) \<Longrightarrow> py_get x key JNull = Inr (entry_value x key)"
  by (cases x) (simp_all add: entry_value_def py_get_def dict_value_def)

lemma get_sandbox_status_sent:
  "sent (snd (get_sandbox_status net w)) = sent w @ [list_request]"
  by (simp add: get_sandbox_status_world find_sandbox_droplet_sent)

lemma apply_network_config_sent:
  assumes "fst (get_sandbox_status net w) = Inr status"
    and "truthy (entry_value status ''running'')"
    and "truthy (entry_value status ''private_ip'')"
  shows "sent (snd (apply_network_config config net w))
           = sent w @ [list_request, AgentApply (entry_value status ''private_ip'') config]"
proof (cases "get_sandbox_status net w")
  case (Pair r w1)
  with assms(1) have r: "r = Inr status" by simp
  from Pair have s1: "sent w1 = sent w @ [list_request]"
    using get_sandbox_status_sent [of net w] by simp
  have "snd (apply_network_config config net w)
      = snd (send net (AgentApply (entry_value status ''private_ip'') config) w1)"
    using Pair r assms(2,3)
    by (simp add: apply_network_config_def py_get_truthy except_Exception_world
        split: prod.splits outcome.splits sum.splits)
  with s1 show ?thesis by (simp add: send_world)
qed

lemma update_network_config_file:
  "fst (snd (update_network_config config net (saved, w))) = Some (model_dump config)"
  by (simp add: update_network_config_def save_network_config_def Let_def
      split: prod.splits sum.splits)

lemma update_network_config_result:
  "fst (update_network_config config net (saved, w)) = Inr r \<Longrightarrow>
   r = JObj [(''status'', JStr ''ok''), (''config'', model_dump config)]"
  by (auto simp: update_network_config_def Let_def split: prod.splits sum.splits if_splits)

lemma update_network_config_running:
  assumes "fst (get_sandbox_status net w) = Inr status"
    and "truthy (entry_value status ''running'')"
  shows "snd (snd (update_network_config config net (saved, w)))
           = snd (apply_network_config (model_dump config) net (snd (get_sandbox_status net w)))"
    and "fst (apply_network_config (model_dump config) net (snd (get_sandbox_status net w))) = Inr applied
         \<Longrightarrow> fst (update_network_config config net (saved, w))
               = Inr (JObj [(''status'', JStr ''ok''), (''config'', model_dump config)])"
  using assms
  by (cases "get_sandbox_status net w";
      cases "apply_network_config (model_dump config) net (snd (get_sandbox_status net w))";
      simp add: update_network_config_def Let_def py_get_truthy split: sum.splits)+

lemma request_result:
  "fst (request net m ep body w)
     = (case fst (net (ApiRequest m ep body) (peer w)) of
          Raises msg \<Rightarrow> Inl (RequestError msg)
        | Responds r \<Rightarrow>
            (case status_error r of
               Some msg \<Rightarrow> Inl (HTTPStatusError msg (content r))
             | None \<Rightarrow>
                 if content r \<noteq> [] then
                   (case decoded r of Inl msg \<Rightarrow> Inl (JSONDecodeError msg) | Inr j \<Rightarrow> Inr j)
                 else Inr (JObj [])))"
  by (cases "net (ApiRequest m ep body) (peer w)")
     (simp add: request_def send_def split: outcome.splits option.splits sum.splits)

lemma spawn_sandbox_not_found_result:
  assumes "\<not> truthy (fst (find_sandbox_droplet net w))"
    and "\<not> truthy (fst (find_sandbox_droplet net' w'))"
    and "fst (net' (create_request self snapshot_id size_slug) (peer (snd (find_sandbox_droplet net' w'))))
           = fst (net (create_request self snapshot_id size_slug) (peer (snd (find_sandbox_droplet net w))))"
  shows "fst (spawn_sandbox self snapshot_id size_slug net' w')
           = fst (spawn_sandbox self snapshot_id size_slug net w)"
proof -
  obtain x w1 where f: "find_sandbox_droplet net w = (x, w1)"
    by (cases "find_sandbox_droplet net w")
  obtain x' w1' where f': "find_sandbox_droplet net' w' = (x', w1')"
    by (cases "find_sandbox_droplet net' w'")
  let ?payload = "Some (spawn_payload self snapshot_id size_slug)"
  from assms(3) f f' have "fst (request net' POST Droplets ?payload w1')
      = fst (request net POST Droplets ?payload w1)"
    by (simp add: request_result create_request_def)
  then have "fst (except_HTTPStatusError
              (case request net' POST Droplets ?payload w1' of
                 (Inl e, w2) \<Rightarrow> (Inl e, w2)
               | (Inr data, w2) \<Rightarrow>
                   (and_then (py_get data ''droplet'' (JObj [])) (\<lambda>droplet.
                    and_then (py_get droplet ''id'' JNull) (\<lambda>droplet_id.
                      Inr (JObj [(''status'', JStr ''creating''),
                                 (''message'', JStr ''Sandbox droplet is being created''),
                                 (''droplet_id'', droplet_id)]))), w2))
              (\<lambda>body. error_result (''Failed to create droplet: '' @ body)))
       = fst (except_HTTPStatusError
              (case request net POST Droplets ?payload w1 of
                 (Inl e, w2) \<Rightarrow> (Inl e, w2)
               | (Inr data, w2) \<Rightarrow>
                   (and_then (py_get data ''droplet'' (JObj [])) (\<lambda>droplet.
                    and_then (py_get droplet ''id'' JNull) (\<lambda>droplet_id.
                      Inr (JObj [(''status'', JStr ''creating''),
                                 (''message'', JStr ''Sandbox droplet is being created''),
                                 (''droplet_id'', droplet_id)]))), w2))
              (\<lambda>body. error_result (''Failed to create droplet: '' @ body)))"
    by (cases "request net' POST Droplets ?payload w1'"; cases "request net POST Droplets ?payload w1")
       (auto simp: except_HTTPStatusError_def split: sum.splits exn.splits)
  with assms(1,2) f f' show ?thesis
    by (simp add: spawn_sandbox_def)
qed

lemma request_raises:
  assumes "fst (net (ApiRequest m ep body) (peer w)) = Raises msg"
  shows "fst (request net m ep body w) = Inl (RequestError msg)"
  using assms by (simp add: request_result)

lemma spawn_sandbox_raises:
  assumes "\<not> truthy (fst (find_sandbox_droplet net w))"
    and "fst (net (create_request self snapshot_id size_slug) (peer (snd (find_sandbox_droplet net w))))
           = Raises msg"
  shows "fst (spawn_sandbox self snapshot_id size_slug net w) = Inl (RequestError msg)"
proof (cases "find_sandbox_droplet net w")
  case (Pair x w1)
  with assms(2) have "fst (request net POST Droplets (Some (spawn_payload self snapshot_id size_slug)) w1)
      = Inl (RequestError msg)"
    by (simp add: request_raises create_request_def)
  with Pair assms(1) show ?thesis
    by (cases "request net POST Droplets (Some (spawn_payload self snapshot_id size_slug)) w1")
       (simp add: spawn_sandbox_def except_HTTPStatusError_def)
qed

lemma kill_sandbox_raises:
  assumes "fst (find_sandbox_droplet net w) = JObj attrs"
    and "attrs \<noteq> []"
    and "fst (net (ApiRequest DELETE (Droplet (dict_value attrs ''id'')) None)
               (peer (snd (find_sandbox_droplet net w)))) = Raises msg"
  shows "fst (kill_sandbox net w) = Inl (RequestError msg)"
proof (cases "find_sandbox_droplet net w")
  case (Pair x w1)
  with assms(3) have "fst (request net DELETE (Droplet (dict_value attrs ''id'')) None w1)
      = Inl (RequestError msg)"
    by (simp add: request_raises)
  moreover have "py_get (JObj attrs) ''id'' JNull = Inr (dict_value attrs ''id'')"
    by (simp add: py_get_def dict_value_def)
  ultimately show ?thesis
    using Pair assms(1,2)
    by (cases "request net DELETE (Droplet (dict_value attrs ''id'')) None w1")
       (simp add: kill_sandbox_def except_HTTPStatusError_def)
qed

lemma update_network_config_sent:
  assumes "fst (get_sandbox_status net w) = Inr status"
    and "truthy (entry_value status ''running'')"
    and "fst (get_sandbox_status net (snd (get_sandbox_status net w))) = Inr again"
    and "truthy (entry_value again ''running'')"
    and "truthy (entry_value again ''private_ip'')"
  shows "sent (snd (snd (update_network_config config net (saved, w))))
           = sent w @ [list_request, list_request,
                       AgentApply (entry_value again ''private_ip'') (model_dump config)]"
  using update_network_config_running(1) [OF assms(1,2), of config saved]
    apply_network_config_sent [OF assms(3,4,5), of "model_dump config"]
    get_sandbox_status_sent [of net w]
  by simp

lemma status_of_droplet_is_object:
  "status_of_droplet droplet = Inr status \<Longrightarrow> is_object status"
  unfolding status_of_droplet_def
  by (auto simp: and_then_def is_object_def split: sum.splits)

lemma get_sandbox_status_is_object:
  "fst (get_sandbox_status net w) = Inr status \<Longrightarrow> is_object status"
  by (cases "find_sandbox_droplet net w")
     (auto simp: get_sandbox_status_def not_created_status_def is_object_def
           split: if_splits dest: status_of_droplet_is_object)

lemma py_get_object:
  "is_object x \<Longrightarrow> py_get x key JNull = Inr (entry_value x key)"
  by (cases x) (simp_all add: is_object_def entry_value_def py_get_def dict_value_def)

lemma update_network_config_not_running:
  assumes "fst (get_sandbox_status net w) = Inr status"
    and "\<not> truthy (entry_value status ''running'')"
  shows "update_network_config config net (saved, w)
           = (Inr (JObj [(''status'', JStr ''ok''), (''config'', model_dump config)]),
              Some (model_dump config), snd (get_sandbox_status net w))"
proof (cases "get_sandbox_status net w")
  case (Pair r w1)
  from assms(1) have "py_get status ''running'' JNull = Inr (entry_value status ''running'')"
    by (simp add: get_sandbox_status_is_object py_get_object)
  with Pair assms show ?thesis
    by (simp add: update_network_config_def save_network_config_def Let_def)
qed

lemma update_network_config_status_raises:
  assumes "fst (get_sandbox_status net w) = Inl e"
  shows "update_network_config config net (saved, w)
           = (Inl e, Some (model_dump config), snd (get_sandbox_status net w))"
  using assms
  by (cases "get_sandbox_status net w")
     (simp add: update_network_config_def save_network_config_def Let_def)

lemma update_network_config_apply_raises:
  assumes "fst (get_sandbox_status net w) = Inr status"
    and "truthy (entry_value status ''running'')"
    and "fst (apply_network_config (model_dump config) net (snd (get_sandbox_status net w))) = Inl e"
  shows "fst (update_network_config config net (saved, w)) = Inl e"
  using assms
  by (cases "get_sandbox_status net w";
      cases "apply_network_config (model_dump config) net (snd (get_sandbox_status net w))")
     (simp add: update_network_config_def Let_def py_get_truthy)

text \<open>The definitions unfolded to run an operation on an example provider.\<close>

lemmas run =
  get_sandbox_status_def find_sandbox_droplet_def request_def send_def start_def
  json_response_def empty_response_def rejected_def
  py_get_def py_first_def py_last_def py_iter_def and_then_def status_of_droplet_def
  except_HTTPStatusError_def except_Exception_def error_result_def

section \<open>Properties of the session store\<close>

lemma create_session_file:
  "snd (create_session digest session_id usr t_clean t_expiry t_created f)
     = Stored ((clean_expired_sessions t_clean (load_sessions f))
                 (digest session_id \<mapsto>
                    \<lparr>user = usr, created_at = t_created, expires_at = t_expiry + session_duration\<rparr>))"
  by (simp add: create_session_def save_sessions_def Let_def)

lemma clean_expired_sessions_Some:
  "clean_expired_sessions now m k = Some s \<longleftrightarrow> m k = Some s \<and> now < expires_at s"
  by (auto simp: clean_expired_sessions_def split: option.splits)

text \<open>
  C6, as amended. Session creation loads the full record set, drops every entry whose
  \<^verbatim>\<open>expires_at\<close> is not after the clock reading, adds the new record and writes the full
  set back: every record of the written file other than the new one was in the file
  before and expires after that reading. Session revocation loads the full set and, when
  the digest of a non-empty token is a key, writes the set back without that one key and
  with every other record as it was, expired or not; otherwise it writes nothing.
\<close>

theorem store_mutations_clean_on_create_only:
  "(let f' = snd (create_session digest session_id usr t_clean t_expiry t_created f) in
      load_sessions f' (digest session_id)
        = Some \<lparr>user = usr, created_at = t_created, expires_at = t_expiry + session_duration\<rparr>
      \<and> (\<forall>k s. k \<noteq> digest session_id \<longrightarrow>
             (load_sessions f' k = Some s \<longleftrightarrow> load_sessions f k = Some s \<and> t_clean < expires_at s)))
   \<and> (session_id \<noteq> [] \<and> digest session_id \<in> dom (load_sessions f) \<longrightarrow>
        revoke_session digest session_id f
          = (True, Stored ((load_sessions f)(digest session_id := None))))
   \<and> (session_id = [] \<or> digest session_id \<notin> dom (load_sessions f) \<longrightarrow>
        revoke_session digest session_id f = (False, f))"
proof -
  have created: "load_sessions (snd (create_session digest session_id usr t_clean t_expiry t_created f))
      = (clean_expired_sessions t_clean (load_sessions f))
          (digest session_id \<mapsto>
             \<lparr>user = usr, created_at = t_created, expires_at = t_expiry + session_duration\<rparr>)"
    by (simp add: create_session_file load_sessions_def)
  have revoked: "session_id \<noteq> [] \<and> digest session_id \<in> dom (load_sessions f) \<longrightarrow>
        revoke_session digest session_id f
          = (True, Stored ((load_sessions f)(digest session_id := None)))"
    by (simp add: revoke_session_def save_sessions_def)
  have kept: "session_id = [] \<or> digest session_id \<notin> dom (load_sessions f) \<longrightarrow>
        revoke_session digest session_id f = (False, f)"
    by (auto simp: revoke_session_def)
  show ?thesis
    unfolding Let_def created
    using revoked kept by (simp add: clean_expired_sessions_Some)
qed

text \<open>
  C6, a witness: a file with an expired and a live record; a creation at instant 50
  leaves only the live one beside the new record, a revocation of the live one's token
  writes the expired one back.
\<close>

theorem store_mutations_clean_on_create_only_witness:
  "(let f = Stored [''a'' \<mapsto> \<lparr>user = ''admin'', created_at = 0, expires_at = 5\<rparr>,
                    ''b'' \<mapsto> \<lparr>user = ''admin'', created_at = 0, expires_at = 100\<rparr>];
        f' = snd (create_session (\<lambda>t. t) ''c'' ''admin'' 50 50 50 f) in
      load_sessions f' ''a'' = None
      \<and> load_sessions f' ''b'' = Some \<lparr>user = ''admin'', created_at = 0, expires_at = 100\<rparr>
      \<and> load_sessions f' ''c''
          = Some \<lparr>user = ''admin'', created_at = 50, expires_at = 50 + session_duration\<rparr>
      \<and> revoke_session (\<lambda>t. t) ''b'' f
          = (True, Stored ((load_sessions f)(''b'' := None)))
      \<and> revoke_session (\<lambda>t. t) [] f = (False, f))"
proof -
  let ?a = "\<lparr>user = ''admin'', created_at = 0, expires_at = 5\<rparr>"
  let ?b = "\<lparr>user = ''admin'', created_at = 0, expires_at = 100\<rparr>"
  let ?f = "Stored [''a'' \<mapsto> ?a, ''b'' \<mapsto> ?b]"
  note crt = store_mutations_clean_on_create_only
      [of "\<lambda>t. t" "''c''" "''admin''" 50 50 50 ?f, unfolded Let_def]
  note rev_b = store_mutations_clean_on_create_only
      [of "\<lambda>t. t" "''b''" "''admin''" 50 50 50 ?f, unfolded Let_def]
  note rev_e = store_mutations_clean_on_create_only
      [of "\<lambda>t. t" "[]" "''admin''" 50 50 50 ?f, unfolded Let_def]
  have a: "load_sessions (snd (create_session (\<lambda>t. t) ''c'' ''admin'' 50 50 50 ?f)) ''a'' = None"
  proof (cases "load_sessions (snd (create_session (\<lambda>t. t) ''c'' ''admin'' 50 50 50 ?f)) ''a''")
    case None
    then show ?thesis .
  next
    case (Some s)
    with crt have "load_sessions ?f ''a'' = Some s \<and> 50 < expires_at s" by simp
    then show ?thesis by (auto simp: load_sessions_def)
  qed
  have b: "load_sessions (snd (create_session (\<lambda>t. t) ''c'' ''admin'' 50 50 50 ?f)) ''b'' = Some ?b"
    using crt by (simp add: load_sessions_def)
  have c: "load_sessions (snd (create_session (\<lambda>t. t) ''c'' ''admin'' 50 50 50 ?f)) ''c''
      = Some \<lparr>user = ''admin'', created_at = 50, expires_at = 50 + session_duration\<rparr>"
    using crt by simp
  have r: "revoke_session (\<lambda>t. t) ''b'' ?f = (True, Stored ((load_sessions ?f)(''b'' := None)))"
    using rev_b by (simp add: load_sessions_def)
  have e: "revoke_session (\<lambda>t. t) [] ?f = (False, ?f)"
    using rev_e by simp
  show ?thesis
    unfolding Let_def using a b c r e by simp
qed

text \<open>
  C6, as stated, fails on revocation: the record under \<^verbatim>\<open>"a"\<close> expired at instant 5, a
  cleaning at instant 50 would drop it, and it is still in the file that the revocation
  of \<^verbatim>\<open>"b"\<close> writes.
\<close>

theorem revoke_session_keeps_expired_counterexample:
  "load_sessions
     (snd (revoke_session (\<lambda>t. t) ''b''
        (Stored [''a'' \<mapsto> \<lparr>user = ''admin'', created_at = 0, expires_at = 5\<rparr>,
                 ''b'' \<mapsto> \<lparr>user = ''admin'', created_at = 0, expires_at = 100\<rparr>]))) ''a''
     = Some \<lparr>user = ''admin'', created_at = 0, expires_at = 5\<rparr>
   \<and> clean_expired_sessions 50
        (load_sessions
          (Stored [''a'' \<mapsto> \<lparr>user = ''admin'', created_at = 0, expires_at = 5\<rparr>,
                   ''b'' \<mapsto> \<lparr>user = ''admin'', created_at = 0, expires_at = 100\<rparr>])) ''a''
       = None"
  by (simp add: revoke_session_def load_sessions_def save_sessions_def clean_expired_sessions_def)

text \<open>
  C7. \<^verbatim>\<open>create_session\<close> returns the token it drew. A \<^verbatim>\<open>verify_session\<close> of that
  (non-empty) token on the written file, at an instant not after the new record's expiry,
  answers true and writes nothing. With a collision-free digest, a \<^verbatim>\<open>verify_session\<close> of
  any other token answers false unless the file held, before the creation, a record of
  that token that is not yet expired at the verification.
\<close>

theorem create_then_verify_session:
  "fst (create_session digest session_id usr t_clean t_expiry t_created f) = session_id
   \<and> (session_id \<noteq> [] \<and> t_verify \<le> t_expiry + session_duration \<longrightarrow>
        verify_session digest session_id t_verify
            (snd (create_session digest session_id usr t_clean t_expiry t_created f))
          = (True, snd (create_session digest session_id usr t_clean t_expiry t_created f)))
   \<and> (inj digest \<and> other \<noteq> session_id
        \<and> (\<forall>s. load_sessions f (digest other) = Some s \<longrightarrow> expires_at s < t_verify) \<longrightarrow>
        fst (verify_session digest other t_verify
               (snd (create_session digest session_id usr t_clean t_expiry t_created f)))
          = False)"
proof -
  let ?f' = "snd (create_session digest session_id usr t_clean t_expiry t_created f)"
  have tok: "fst (create_session digest session_id usr t_clean t_expiry t_created f) = session_id"
    by (simp add: create_session_def Let_def)
  have own: "session_id \<noteq> [] \<and> t_verify \<le> t_expiry + session_duration \<longrightarrow>
      verify_session digest session_id t_verify ?f' = (True, ?f')"
    by (simp add: create_session_file verify_session_def load_sessions_def)
  have others: "fst (verify_session digest other t_verify ?f') = False"
    if h: "inj digest" "other \<noteq> session_id"
      "\<forall>s. load_sessions f (digest other) = Some s \<longrightarrow> expires_at s < t_verify"
  proof -
    from h have neq: "digest other \<noteq> digest session_id"
      by (auto dest: injD)
    show ?thesis
    proof (cases "load_sessions ?f' (digest other)")
      case None
      then show ?thesis by (simp add: verify_session_def)
    next
      case (Some s)
      with neq have "load_sessions f (digest other) = Some s"
        by (simp add: create_session_file load_sessions_def clean_expired_sessions_Some)
      with h have "expires_at s < t_verify" by simp
      with Some show ?thesis by (simp add: verify_session_def)
    qed
  qed
  from tok own others show ?thesis by blast
qed

theorem create_then_verify_session_witness:
  "fst (create_session (\<lambda>t. t) ''tok'' ''admin'' 50 50 50 NoFile) = ''tok''
   \<and> verify_session (\<lambda>t. t) ''tok'' 60 (snd (create_session (\<lambda>t. t) ''tok'' ''admin'' 50 50 50 NoFile))
       = (True, snd (create_session (\<lambda>t. t) ''tok'' ''admin'' 50 50 50 NoFile))
   \<and> fst (verify_session (\<lambda>t. t) ''kot'' 60
            (snd (create_session (\<lambda>t. t) ''tok'' ''admin'' 50 50 50 NoFile))) = False"
proof -
  have d: "(60::int) \<le> 50 + session_duration"
    by (simp add: session_duration_def SESSION_DURATION_HOURS_def)
  have i: "inj (\<lambda>t::string. t)" by simp
  have n: "\<forall>s. load_sessions NoFile ((\<lambda>t. t) ''kot'') = Some s \<longrightarrow> expires_at s < 60"
    by (simp add: load_sessions_def)
  show ?thesis
    using create_then_verify_session
      [of "\<lambda>t. t" "''tok''" "''admin''" 50 50 50 NoFile 60 "''kot''"] d i n
    by simp
qed

text \<open>
  C8. When the file holds, under the digest of a non-empty token, a record whose
  \<^verbatim>\<open>expires_at\<close> is before the clock reading, \<^verbatim>\<open>verify_session\<close> answers false and
  writes the dictionary back without that record; on the written file the record is
  absent, and every later \<^verbatim>\<open>verify_session\<close> of the token, at any instant, answers false
  and leaves the file as it is.
\<close>

theorem verify_session_expired:
  assumes "session_id \<noteq> []"
    and "load_sessions f (digest session_id) = Some s"
    and "expires_at s < now"
  shows "verify_session digest session_id now f
           = (False, Stored ((load_sessions f)(digest session_id := None)))
         \<and> load_sessions (snd (verify_session digest session_id now f)) (digest session_id) = None
         \<and> (\<forall>later. verify_session digest session_id later (snd (verify_session digest session_id now f))
               = (False, snd (verify_session digest session_id now f)))"
  using assms by (simp add: verify_session_def save_sessions_def load_sessions_def)

theorem verify_session_expired_witness:
  "verify_session (\<lambda>t. t) ''tok'' 11
       (Stored [''tok'' \<mapsto> \<lparr>user = ''admin'', created_at = 0, expires_at = 10\<rparr>])
     = (False, Stored ((load_sessions
          (Stored [''tok'' \<mapsto> \<lparr>user = ''admin'', created_at = 0, expires_at = 10\<rparr>]))(''tok'' := None)))
   \<and> load_sessions (snd (verify_session (\<lambda>t. t) ''tok'' 11
          (Stored [''tok'' \<mapsto> \<lparr>user = ''admin'', created_at = 0, expires_at = 10\<rparr>]))) ''tok'' = None
   \<and> verify_session (\<lambda>t. t) ''tok'' 12 (snd (verify_session (\<lambda>t. t) ''tok'' 11
          (Stored [''tok'' \<mapsto> \<lparr>user = ''admin'', created_at = 0, expires_at = 10\<rparr>])))
       = (False, snd (verify_session (\<lambda>t. t) ''tok'' 11
          (Stored [''tok'' \<mapsto> \<lparr>user = ''admin'', created_at = 0, expires_at = 10\<rparr>])))"
proof -
  let ?s = "\<lparr>user = ''admin'', created_at = 0, expires_at = 10\<rparr>"
  have a: "''tok'' \<noteq> []" by simp
  have b: "load_sessions (Stored [''tok'' \<mapsto> ?s]) ((\<lambda>t. t) ''tok'') = Some ?s"
    by (simp add: load_sessions_def)
  have c: "expires_at ?s < 11" by simp
  show ?thesis
    using verify_session_expired
      [where digest = "\<lambda>t. t" and session_id = "''tok''" and s = ?s and now = 11
         and f = "Stored [''tok'' \<mapsto> ?s]"] a b c
    by blast
qed

text \<open>
  C10. For a non-empty token whose digest is a key of the stored dictionary,
  \<^verbatim>\<open>get_session_user\<close> returns the stored principal whatever the record's
  \<^verbatim>\<open>expires_at\<close> is, also at an instant at which \<^verbatim>\<open>verify_session\<close> rejects the same
  token and writes the dictionary back without the record. \<^verbatim>\<open>get_session_user\<close> takes no
  clock reading and returns no file: it compares no expiry and writes nothing.
\<close>

theorem get_session_user_ignores_expiry:
  assumes "session_id \<noteq> []"
    and "load_sessions f (digest session_id) = Some s"
  shows "get_session_user digest session_id f = Some (user s)
         \<and> (expires_at s < now \<longrightarrow>
              verify_session digest session_id now f
                = (False, Stored ((load_sessions f)(digest session_id := None))))"
  using assms by (simp add: get_session_user_def verify_session_def save_sessions_def)

theorem get_session_user_ignores_expiry_witness:
  "get_session_user (\<lambda>t. t) ''tok''
       (Stored [''tok'' \<mapsto> \<lparr>user = ''admin'', created_at = 0, expires_at = 10\<rparr>]) = Some ''admin''
   \<and> verify_session (\<lambda>t. t) ''tok'' 11
       (Stored [''tok'' \<mapsto> \<lparr>user = ''admin'', created_at = 0, expires_at = 10\<rparr>])
     = (False, Stored ((load_sessions
          (Stored [''tok'' \<mapsto> \<lparr>user = ''admin'', created_at = 0, expires_at = 10\<rparr>]))(''tok'' := None)))"
proof -
  let ?s = "\<lparr>user = ''admin'', created_at = 0, expires_at = 10\<rparr>"
  have a: "''tok'' \<noteq> []" by simp
  have b: "load_sessions (Stored [''tok'' \<mapsto> ?s]) ((\<lambda>t. t) ''tok'') = Some ?s"
    by (simp add: load_sessions_def)
  show ?thesis
    using get_session_user_ignores_expiry
      [where digest = "\<lambda>t. t" and session_id = "''tok''" and s = ?s and now = 11
         and f = "Stored [''tok'' \<mapsto> ?s]"] a b
    by simp
qed

section \<open>The claims about the droplet manager\<close>

text \<open>
  C1. The builder is not destroyed on every path: \<^verbatim>\<open>build_sandbox_snapshot\<close> sends the
  destroy request at the end of the \<^verbatim>\<open>try\<close> body only, and the handler of
  \<^verbatim>\<open>except Exception\<close> returns without it. On the small provider, which creates the
  builder and rejects the shutdown action, the operation returns the error of the
  shutdown, has sent the creation and the shutdown request and no destroy request, and
  the builder is still among the provider's instances.
\<close>

theorem build_sandbox_snapshot_leaves_builder:
  "fst (build_sandbox_snapshot example_manager ''100'' small_provider (start []))
     = Inr (JObj [(''status'', JStr ''error''),
                  (''message'', JStr ''Client error 422 Unprocessable Entity'')])
   \<and> sent (snd (build_sandbox_snapshot example_manager ''100'' small_provider (start [])))
       = [ApiRequest POST Droplets (Some (builder_payload example_manager)),
          ApiRequest POST (DropletActions (JInt 42)) (Some (JObj [(''type'', JStr ''shutdown'')]))]
   \<and> peer (snd (build_sandbox_snapshot example_manager ''100'' small_provider (start [])))
       = [new_droplet]"
  by (simp add: build_sandbox_snapshot_def build_steps_def run new_droplet_def)

text \<open>
  C2, as amended. \<^verbatim>\<open>update_network_config\<close> always saves the configuration. When the
  status query reports the sandbox running, it calls \<^verbatim>\<open>apply_network_config\<close> before
  it returns (the world afterwards is the one that call leaves), and when the status
  query of that call again reports the sandbox running, with a private address, the
  requests sent are the two queries and the POST of the configuration to the agent at
  that address. Whatever \<^verbatim>\<open>apply_network_config\<close> returns, an error result
  included, the result is \<^verbatim>\<open>ok\<close> with the configuration: no other result is returned.
  When the status query reports the sandbox not running, the result is \<^verbatim>\<open>ok\<close> with the
  configuration as well, and the query is the only request sent. An exception leaves
  \<^verbatim>\<open>update_network_config\<close> only when the status query or \<^verbatim>\<open>apply_network_config\<close>
  raises it, after the configuration is saved.
\<close>

theorem update_network_config_persists_and_attempts:
  "fst (snd (update_network_config config net (saved, w))) = Some (model_dump config)
   \<and> (\<forall>status. fst (get_sandbox_status net w) = Inr status
          \<and> truthy (entry_value status ''running'') \<longrightarrow>
          snd (snd (update_network_config config net (saved, w)))
            = snd (apply_network_config (model_dump config) net (snd (get_sandbox_status net w))))
   \<and> (\<forall>status again. fst (get_sandbox_status net w) = Inr status
          \<and> truthy (entry_value status ''running'')
          \<and> fst (get_sandbox_status net (snd (get_sandbox_status net w))) = Inr again
          \<and> truthy (entry_value again ''running'')
          \<and> truthy (entry_value again ''private_ip'') \<longrightarrow>
          sent (snd (snd (update_network_config config net (saved, w))))
            = sent w @ [list_request, list_request,
                        AgentApply (entry_value again ''private_ip'') (model_dump config)])
   \<and> (\<forall>status applied. fst (get_sandbox_status net w) = Inr status
          \<and> truthy (entry_value status ''running'')
          \<and> fst (apply_network_config (model_dump config) net (snd (get_sandbox_status net w)))
              = Inr applied \<longrightarrow>
          fst (update_network_config config net (saved, w))
            = Inr (JObj [(''status'', JStr ''ok''), (''config'', model_dump config)]))
   \<and> (\<forall>r. fst (update_network_config config net (saved, w)) = Inr r \<longrightarrow>
          r = JObj [(''status'', JStr ''ok''), (''config'', model_dump config)])
   \<and> (\<forall>status. fst (get_sandbox_status net w) = Inr status
          \<and> \<not> truthy (entry_value status ''running'') \<longrightarrow>
          update_network_config config net (saved, w)
            = (Inr (JObj [(''status'', JStr ''ok''), (''config'', model_dump config)]),
               Some (model_dump config), snd (get_sandbox_status net w))
          \<and> sent (snd (snd (update_network_config config net (saved, w))))
              = sent w @ [list_request])
   \<and> (\<forall>e. fst (get_sandbox_status net w) = Inl e \<longrightarrow>
          update_network_config config net (saved, w)
            = (Inl e, Some (model_dump config), snd (get_sandbox_status net w)))
   \<and> (\<forall>status e. fst (get_sandbox_status net w) = Inr status
          \<and> truthy (entry_value status ''running'')
          \<and> fst (apply_network_config (model_dump config) net (snd (get_sandbox_status net w)))
              = Inl e \<longrightarrow>
          fst (update_network_config config net (saved, w)) = Inl e)"
proof -
  have idle: "update_network_config config net (saved, w)
            = (Inr (JObj [(''status'', JStr ''ok''), (''config'', model_dump config)]),
               Some (model_dump config), snd (get_sandbox_status net w))
          \<and> sent (snd (snd (update_network_config config net (saved, w))))
              = sent w @ [list_request]"
    if "fst (get_sandbox_status net w) = Inr status"
      and "\<not> truthy (entry_value status ''running'')" for status
    using update_network_config_not_running [OF that, of config saved]
      get_sandbox_status_sent [of net w]
    by simp
  show ?thesis
    using update_network_config_file [of config net saved w]
      update_network_config_running [where net = net and w = w and config = config and saved = saved]
      update_network_config_sent [where net = net and w = w and config = config and saved = saved]
      update_network_config_result [of config net saved w]
      idle
      update_network_config_status_raises [where net = net and w = w and config = config and saved = saved]
      update_network_config_apply_raises [where net = net and w = w and config = config and saved = saved]
    by blast
qed

text \<open>
  C2, a witness: the active instance, whose agent does not answer, and the provider
  without instances.
\<close>

theorem update_network_config_persists_and_attempts_witness:
  "fst (snd (update_network_config \<lparr>containers = [], inter_container = []\<rparr> small_provider
          (None, start [two_homed])))
     = Some (model_dump \<lparr>containers = [], inter_container = []\<rparr>)
   \<and> snd (snd (update_network_config \<lparr>containers = [], inter_container = []\<rparr> small_provider
          (None, start [two_homed])))
       = snd (apply_network_config (model_dump \<lparr>containers = [], inter_container = []\<rparr>) small_provider
               (snd (get_sandbox_status small_provider (start [two_homed]))))
   \<and> sent (snd (snd (update_network_config \<lparr>containers = [], inter_container = []\<rparr> small_provider
          (None, start [two_homed]))))
       = sent (start [two_homed])
         @ [list_request, list_request,
            AgentApply (JStr ''10.0.0.2'') (model_dump \<lparr>containers = [], inter_container = []\<rparr>)]
   \<and> fst (update_network_config \<lparr>containers = [], inter_container = []\<rparr> small_provider
            (None, start [two_homed]))
       = Inr (JObj [(''status'', JStr ''ok''),
                    (''config'', model_dump \<lparr>containers = [], inter_container = []\<rparr>)])
   \<and> update_network_config \<lparr>containers = [], inter_container = []\<rparr> small_provider
         (None, start [])
       = (Inr (JObj [(''status'', JStr ''ok''),
                     (''config'', model_dump \<lparr>containers = [], inter_container = []\<rparr>)]),
          Some (model_dump \<lparr>containers = [], inter_container = []\<rparr>),
          snd (get_sandbox_status small_provider (start [])))
   \<and> sent (snd (snd (update_network_config \<lparr>containers = [], inter_container = []\<rparr>
                        small_provider (None, start []))))
       = [list_request]"
proof -
  let ?config = "\<lparr>containers = [], inter_container = []\<rparr>"
  let ?status = "JObj [(''running'', JBool True), (''status'', JStr ''active''),
                  (''droplet_id'', JInt 7), (''ip_address'', JStr ''192.0.2.2''),
                  (''private_ip'', JStr ''10.0.0.2''), (''created_at'', JNull),
                  (''size'', JNull), (''region'', JNull)]"
  have s: "fst (get_sandbox_status small_provider (start [two_homed])) = Inr ?status"
    by (simp add: run two_homed_def two_homed_fields_def two_homed_v4_def)
  have s': "fst (get_sandbox_status small_provider
                  (snd (get_sandbox_status small_provider (start [two_homed])))) = Inr ?status"
    by (simp add: run two_homed_def two_homed_fields_def two_homed_v4_def)
  have r: "truthy (entry_value ?status ''running'')"
    by (simp add: entry_value_def dict_value_def)
  have p: "truthy (entry_value ?status ''private_ip'')"
    by (simp add: entry_value_def dict_value_def)
  have ip: "entry_value ?status ''private_ip'' = JStr ''10.0.0.2''"
    by (simp add: entry_value_def dict_value_def)
  have a: "fst (apply_network_config (model_dump ?config) small_provider
                  (snd (get_sandbox_status small_provider (start [two_homed]))))
             = Inr (error_result ''timed out'')"
    by (simp add: apply_network_config_def run two_homed_def two_homed_fields_def two_homed_v4_def)
  note t = update_network_config_persists_and_attempts
             [where config = ?config and net = small_provider and saved = None
                and w = "start [two_homed]"]
  from t have c1: "fst (snd (update_network_config ?config small_provider (None, start [two_homed])))
     = Some (model_dump ?config)"
    by blast
  from t s r have c2: "snd (snd (update_network_config ?config small_provider (None, start [two_homed])))
       = snd (apply_network_config (model_dump ?config) small_provider
               (snd (get_sandbox_status small_provider (start [two_homed]))))"
    by blast
  from t s r s' p have "sent (snd (snd (update_network_config ?config small_provider (None, start [two_homed]))))
       = sent (start [two_homed])
         @ [list_request, list_request,
            AgentApply (entry_value ?status ''private_ip'') (model_dump ?config)]"
    by blast
  with ip have c3: "sent (snd (snd (update_network_config ?config small_provider (None, start [two_homed]))))
       = sent (start [two_homed])
         @ [list_request, list_request, AgentApply (JStr ''10.0.0.2'') (model_dump ?config)]"
    by simp
  from t s r a have c4: "fst (update_network_config ?config small_provider (None, start [two_homed]))
       = Inr (JObj [(''status'', JStr ''ok''), (''config'', model_dump ?config)])"
    by blast
  have s0: "fst (get_sandbox_status small_provider (start [])) = Inr not_created_status"
    by (simp add: run)
  have n0: "\<not> truthy (entry_value not_created_status ''running'')"
    by (simp add: not_created_status_def entry_value_def dict_value_def)
  note t0 = update_network_config_persists_and_attempts
             [where config = ?config and net = small_provider and saved = None
                and w = "start []"]
  from t0 s0 n0 have "update_network_config ?config small_provider (None, start [])
       = (Inr (JObj [(''status'', JStr ''ok''), (''config'', model_dump ?config)]),
          Some (model_dump ?config), snd (get_sandbox_status small_provider (start [])))
     \<and> sent (snd (snd (update_network_config ?config small_provider (None, start []))))
       = sent (start ([]::json list)) @ [list_request]"
    by blast
  then have c5: "update_network_config ?config small_provider (None, start [])
       = (Inr (JObj [(''status'', JStr ''ok''), (''config'', model_dump ?config)]),
          Some (model_dump ?config), snd (get_sandbox_status small_provider (start [])))"
    and c6': "sent (snd (snd (update_network_config ?config small_provider (None, start []))))
       = sent (start ([]::json list)) @ [list_request]"
    by blast+
  have e: "sent (start ([]::json list)) = []"
    by (simp add: start_def)
  from c6' have c6: "sent (snd (snd (update_network_config ?config small_provider (None, start []))))
       = [list_request]"
    by (simp only: e append_Nil)
  from c1 c2 c3 c4 c5 c6 show ?thesis by blast
qed

text \<open>
  C2, as stated, fails: the sandbox is active with a private address, the POST to the
  agent raises, \<^verbatim>\<open>apply_network_config\<close> returns an error result, and
  \<^verbatim>\<open>update_network_config\<close> returns \<^verbatim>\<open>ok\<close>.
\<close>

theorem update_network_config_ok_on_failed_apply_counterexample:
  "fst (update_network_config \<lparr>containers = [], inter_container = []\<rparr> small_provider
          (None, start [two_homed]))
     = Inr (JObj [(''status'', JStr ''ok''),
                  (''config'', model_dump \<lparr>containers = [], inter_container = []\<rparr>)])
   \<and> sent (snd (snd (update_network_config \<lparr>containers = [], inter_container = []\<rparr> small_provider
          (None, start [two_homed]))))
       = [list_request, list_request,
          AgentApply (JStr ''10.0.0.2'') (model_dump \<lparr>containers = [], inter_container = []\<rparr>)]
   \<and> fst (small_provider
            (AgentApply (JStr ''10.0.0.2'') (model_dump \<lparr>containers = [], inter_container = []\<rparr>))
            [two_homed])
       = Raises ''timed out''
   \<and> fst (apply_network_config (model_dump \<lparr>containers = [], inter_container = []\<rparr>) small_provider
            (snd (get_sandbox_status small_provider (start [two_homed]))))
       = Inr (JObj [(''status'', JStr ''error''), (''message'', JStr ''timed out'')])"
  by (simp add: update_network_config_def apply_network_config_def save_network_config_def run
      two_homed_def two_homed_fields_def two_homed_v4_def list_request_def)

text \<open>
  C3, as amended. When the instance found is a dictionary whose \<^verbatim>\<open>networks.v4\<close> is a list of
  dictionaries (and whose \<^verbatim>\<open>size\<close> and \<^verbatim>\<open>region\<close>, if present, are dictionaries),
  \<^verbatim>\<open>get_sandbox_status\<close> reports as \<^verbatim>\<open>ip_address\<close> the address of the last entry of
  type \<^verbatim>\<open>public\<close> and as \<^verbatim>\<open>private_ip\<close> the address of the last entry of type
  \<^verbatim>\<open>private\<close> (\<^verbatim>\<open>None\<close> when there is no such entry): the loop has no \<^verbatim>\<open>break\<close>, so a
  later entry of a type overwrites an earlier one.
\<close>

theorem get_sandbox_status_last_addresses:
  assumes "fst (find_sandbox_droplet net w) = JObj kvs"
    and "map_of kvs ''networks'' = Some (JObj nkvs)"
    and "map_of nkvs ''v4'' = Some (JList nets)"
    and "\<forall>n \<in> set nets. is_object n"
    and "is_object (case map_of kvs ''size'' of Some v \<Rightarrow> v | None \<Rightarrow> JObj [])"
    and "is_object (case map_of kvs ''region'' of Some v \<Rightarrow> v | None \<Rightarrow> JObj [])"
  shows "fst (get_sandbox_status net w)
     = Inr (JObj [(''running'', JBool (dict_value kvs ''status'' = JStr ''active'')),
                  (''status'', dict_value kvs ''status''),
                  (''droplet_id'', dict_value kvs ''id''),
                  (''ip_address'', last_or JNull (ips_of_type ''public'' nets)),
                  (''private_ip'', last_or JNull (ips_of_type ''private'' nets)),
                  (''created_at'', dict_value kvs ''created_at''),
                  (''size'', entry_value (case map_of kvs ''size'' of Some v \<Rightarrow> v | None \<Rightarrow> JObj []) ''slug''),
                  (''region'', entry_value (case map_of kvs ''region'' of Some v \<Rightarrow> v | None \<Rightarrow> JObj []) ''slug'')])"
proof -
  from assms(2) have "kvs \<noteq> []" by auto
  with assms(1) have "fst (get_sandbox_status net w) = status_of_droplet (JObj kvs)"
    by (cases "find_sandbox_droplet net w") (simp add: get_sandbox_status_def)
  then show ?thesis
    by (simp add: status_of_droplet_object [OF assms(2-6)])
qed

text \<open>C3, a witness: the instance with two public and two private attachments.\<close>

theorem get_sandbox_status_last_addresses_witness:
  "fst (get_sandbox_status small_provider (start [two_homed]))
     = Inr (JObj [(''running'', JBool True),
                  (''status'', JStr ''active''),
                  (''droplet_id'', JInt 7),
                  (''ip_address'', last_or JNull (ips_of_type ''public'' two_homed_v4)),
                  (''private_ip'', last_or JNull (ips_of_type ''private'' two_homed_v4)),
                  (''created_at'', JNull),
                  (''size'', JNull),
                  (''region'', JNull)])
   \<and> last_or JNull (ips_of_type ''public'' two_homed_v4) = JStr ''192.0.2.2''
   \<and> last_or JNull (ips_of_type ''private'' two_homed_v4) = JStr ''10.0.0.2''"
proof -
  have f: "fst (find_sandbox_droplet small_provider (start [two_homed])) = JObj two_homed_fields"
    by (simp add: find_sandbox_droplet_def request_def send_def start_def json_response_def
        py_get_def py_first_def two_homed_def)
  have n: "map_of two_homed_fields ''networks'' = Some (JObj [(''v4'', JList two_homed_v4)])"
    by (simp add: two_homed_fields_def)
  have v: "map_of [(''v4'', JList two_homed_v4)] ''v4'' = Some (JList two_homed_v4)"
    by simp
  have o: "\<forall>n \<in> set two_homed_v4. is_object n"
    by (simp add: two_homed_v4_def is_object_def)
  have s: "is_object (case map_of two_homed_fields ''size'' of Some v \<Rightarrow> v | None \<Rightarrow> JObj [])"
    by (simp add: two_homed_fields_def is_object_def)
  have r: "is_object (case map_of two_homed_fields ''region'' of Some v \<Rightarrow> v | None \<Rightarrow> JObj [])"
    by (simp add: two_homed_fields_def is_object_def)
  have a: "last_or JNull (ips_of_type ''public'' two_homed_v4) = JStr ''192.0.2.2''"
    by (simp add: last_or_def ips_of_type_def two_homed_v4_def entry_value_def dict_value_def)
  have b: "last_or JNull (ips_of_type ''private'' two_homed_v4) = JStr ''10.0.0.2''"
    by (simp add: last_or_def ips_of_type_def two_homed_v4_def entry_value_def dict_value_def)
  have "fst (get_sandbox_status small_provider (start [two_homed]))
     = Inr (JObj [(''running'', JBool (dict_value two_homed_fields ''status'' = JStr ''active'')),
                  (''status'', dict_value two_homed_fields ''status''),
                  (''droplet_id'', dict_value two_homed_fields ''id''),
                  (''ip_address'', last_or JNull (ips_of_type ''public'' two_homed_v4)),
                  (''private_ip'', last_or JNull (ips_of_type ''private'' two_homed_v4)),
                  (''created_at'', dict_value two_homed_fields ''created_at''),
                  (''size'', entry_value (case map_of two_homed_fields ''size'' of Some v \<Rightarrow> v | None \<Rightarrow> JObj []) ''slug''),
                  (''region'', entry_value (case map_of two_homed_fields ''region'' of Some v \<Rightarrow> v | None \<Rightarrow> JObj []) ''slug'')])"
    by (rule get_sandbox_status_last_addresses [OF f n v o s r])
  then have "fst (get_sandbox_status small_provider (start [two_homed]))
     = Inr (JObj [(''running'', JBool True),
                  (''status'', JStr ''active''),
                  (''droplet_id'', JInt 7),
                  (''ip_address'', last_or JNull (ips_of_type ''public'' two_homed_v4)),
                  (''private_ip'', last_or JNull (ips_of_type ''private'' two_homed_v4)),
                  (''created_at'', JNull),
                  (''size'', JNull),
                  (''region'', JNull)])"
    by (simp add: dict_value_def entry_value_def two_homed_fields_def)
  with a b show ?thesis by simp
qed

text \<open>
  C3, as stated, fails: for that instance the first entry of type \<^verbatim>\<open>public\<close> has the
  address 192.0.2.1 and the first of type \<^verbatim>\<open>private\<close> has 10.0.0.1, and the status
  reports 192.0.2.2 and 10.0.0.2.
\<close>

theorem first_address_counterexample:
  "fst (get_sandbox_status small_provider (start [two_homed]))
     = Inr (JObj [(''running'', JBool True), (''status'', JStr ''active''),
                  (''droplet_id'', JInt 7), (''ip_address'', JStr ''192.0.2.2''),
                  (''private_ip'', JStr ''10.0.0.2''), (''created_at'', JNull),
                  (''size'', JNull), (''region'', JNull)])
   \<and> hd (ips_of_type ''public'' two_homed_v4) = JStr ''192.0.2.1''
   \<and> hd (ips_of_type ''private'' two_homed_v4) = JStr ''10.0.0.1''"
  by (simp add: get_sandbox_status_def find_sandbox_droplet_def request_def send_def start_def
      json_response_def py_get_def py_first_def status_of_droplet_def and_then_def py_iter_def
      two_homed_def two_homed_fields_def two_homed_v4_def ips_of_type_def entry_value_def dict_value_def)

text \<open>
  C4, as amended. No exception escapes \<^verbatim>\<open>build_sandbox_snapshot\<close>: an exception of any
  step gives the error result with \<^verbatim>\<open>str(e)\<close>. No failure of the HTTP layer (HTTP status
  error, exception of the client, undecodable body) escapes \<^verbatim>\<open>get_sandbox_status\<close> or
  \<^verbatim>\<open>apply_network_config\<close>. No HTTP status error escapes \<^verbatim>\<open>spawn_sandbox\<close> or
  \<^verbatim>\<open>kill_sandbox\<close>: when the provider rejects the creation or the destroy request with
  an error status, the result is the error result that carries the body of that response.
  When the client raises on the creation or the destroy request, that exception is the
  outcome of \<^verbatim>\<open>spawn_sandbox\<close> or \<^verbatim>\<open>kill_sandbox\<close>: their handler names
  \<^verbatim>\<open>httpx.HTTPStatusError\<close> only.
\<close>

theorem http_failures_at_the_operation_boundary:
  "(\<exists>r. fst (build_sandbox_snapshot self stamp net w) = Inr r)
   \<and> (\<forall>e. fst (build_steps self stamp net w) = Inl e \<longrightarrow>
          fst (build_sandbox_snapshot self stamp net w) = Inr (error_result (str_exn e)))
   \<and> (\<forall>e. fst (get_sandbox_status net w) = Inl e \<longrightarrow> \<not> http_layer_error e)
   \<and> (\<forall>e. fst (apply_network_config config net w) = Inl e \<longrightarrow> \<not> http_layer_error e)
   \<and> (\<forall>e. fst (spawn_sandbox self snapshot_id size_slug net w) = Inl e \<longrightarrow> \<not> is_HTTPStatusError e)
   \<and> (\<forall>e. fst (kill_sandbox net w) = Inl e \<longrightarrow> \<not> is_HTTPStatusError e)
   \<and> (\<forall>r msg. \<not> truthy (fst (find_sandbox_droplet net w))
          \<and> fst (net (create_request self snapshot_id size_slug) (peer (snd (find_sandbox_droplet net w))))
              = Responds r
          \<and> status_error r = Some msg \<longrightarrow>
          fst (spawn_sandbox self snapshot_id size_slug net w)
            = Inr (error_result (''Failed to create droplet: '' @ content r)))
   \<and> (\<forall>attrs r msg. fst (find_sandbox_droplet net w) = JObj attrs \<and> attrs \<noteq> []
          \<and> fst (net (ApiRequest DELETE (Droplet (dict_value attrs ''id'')) None)
                   (peer (snd (find_sandbox_droplet net w)))) = Responds r
          \<and> status_error r = Some msg \<longrightarrow>
          fst (kill_sandbox net w)
            = Inr (error_result (''Failed to destroy droplet: '' @ content r)))
   \<and> (\<forall>msg. \<not> truthy (fst (find_sandbox_droplet net w))
          \<and> fst (net (create_request self snapshot_id size_slug) (peer (snd (find_sandbox_droplet net w))))
              = Raises msg \<longrightarrow>
          fst (spawn_sandbox self snapshot_id size_slug net w) = Inl (RequestError msg))
   \<and> (\<forall>attrs msg. fst (find_sandbox_droplet net w) = JObj attrs \<and> attrs \<noteq> []
          \<and> fst (net (ApiRequest DELETE (Droplet (dict_value attrs ''id'')) None)
                   (peer (snd (find_sandbox_droplet net w)))) = Raises msg \<longrightarrow>
          fst (kill_sandbox net w) = Inl (RequestError msg))"
proof (intro conjI allI impI)
  show "\<exists>r. fst (build_sandbox_snapshot self stamp net w) = Inr r"
    unfolding build_sandbox_snapshot_def by (rule except_Exception_returns)
next
  fix e assume "fst (build_steps self stamp net w) = Inl e"
  then show "fst (build_sandbox_snapshot self stamp net w) = Inr (error_result (str_exn e))"
    unfolding build_sandbox_snapshot_def by (rule except_Exception_handles)
next
  fix e assume "fst (get_sandbox_status net w) = Inl e"
  then show "\<not> http_layer_error e" by (rule get_sandbox_status_error)
next
  fix e assume "fst (apply_network_config config net w) = Inl e"
  then show "\<not> http_layer_error e" by (rule apply_network_config_error)
next
  fix e assume "fst (spawn_sandbox self snapshot_id size_slug net w) = Inl e"
  then show "\<not> is_HTTPStatusError e" by (rule spawn_sandbox_error)
next
  fix e assume "fst (kill_sandbox net w) = Inl e"
  then show "\<not> is_HTTPStatusError e" by (rule kill_sandbox_error)
next
  fix r msg
  assume "\<not> truthy (fst (find_sandbox_droplet net w))
          \<and> fst (net (create_request self snapshot_id size_slug) (peer (snd (find_sandbox_droplet net w))))
              = Responds r
          \<and> status_error r = Some msg"
  then show "fst (spawn_sandbox self snapshot_id size_slug net w)
            = Inr (error_result (''Failed to create droplet: '' @ content r))"
    by (simp add: spawn_sandbox_rejected)
next
  fix attrs r msg
  assume "fst (find_sandbox_droplet net w) = JObj attrs \<and> attrs \<noteq> []
          \<and> fst (net (ApiRequest DELETE (Droplet (dict_value attrs ''id'')) None)
                   (peer (snd (find_sandbox_droplet net w)))) = Responds r
          \<and> status_error r = Some msg"
  then show "fst (kill_sandbox net w)
            = Inr (error_result (''Failed to destroy droplet: '' @ content r))"
    by (simp add: kill_sandbox_rejected)
next
  fix msg
  assume "\<not> truthy (fst (find_sandbox_droplet net w))
          \<and> fst (net (create_request self snapshot_id size_slug) (peer (snd (find_sandbox_droplet net w))))
              = Raises msg"
  then show "fst (spawn_sandbox self snapshot_id size_slug net w) = Inl (RequestError msg)"
    by (simp add: spawn_sandbox_raises)
next
  fix attrs msg
  assume "fst (find_sandbox_droplet net w) = JObj attrs \<and> attrs \<noteq> []
          \<and> fst (net (ApiRequest DELETE (Droplet (dict_value attrs ''id'')) None)
                   (peer (snd (find_sandbox_droplet net w)))) = Raises msg"
  then show "fst (kill_sandbox net w) = Inl (RequestError msg)"
    by (simp add: kill_sandbox_raises)
qed

text \<open>
  C4, a witness: a rejected shutdown action, a rejected creation, a rejected destroy
  request and a refused connection.
\<close>

theorem http_failures_at_the_operation_boundary_witness:
  "fst (build_sandbox_snapshot example_manager ''100'' small_provider (start []))
     = Inr (error_result
              (str_exn (HTTPStatusError ''Client error 422 Unprocessable Entity'' ''droplet is not ready'')))
   \<and> fst (spawn_sandbox example_manager ''img-1'' ''s-2vcpu-2gb'' read_only_provider (start []))
       = Inr (error_result (''Failed to create droplet: '' @ content rejected))
   \<and> fst (kill_sandbox read_only_provider (start [two_homed]))
       = Inr (error_result (''Failed to destroy droplet: '' @ content rejected))
   \<and> fst (spawn_sandbox example_manager ''img-2'' ''s-1vcpu-1gb'' unreachable (start ()))
       = Inl (RequestError ''connection refused'')"
proof -
  have b: "fst (build_steps example_manager ''100'' small_provider (start []))
             = Inl (HTTPStatusError ''Client error 422 Unprocessable Entity'' ''droplet is not ready'')"
    by (simp add: build_steps_def run new_droplet_def)
  have f0: "find_sandbox_droplet read_only_provider (start [])
              = (JNull, \<lparr>peer = [], sent = [list_request]\<rparr>)"
    by (simp add: run list_request_def)
  have f1: "find_sandbox_droplet read_only_provider (start [two_homed])
              = (JObj two_homed_fields, \<lparr>peer = [two_homed], sent = [list_request]\<rparr>)"
    by (simp add: run list_request_def two_homed_def)
  have n: "two_homed_fields \<noteq> []" by (simp add: two_homed_fields_def)
  have c: "fst (read_only_provider (create_request example_manager ''img-1'' ''s-2vcpu-2gb'')
                 (peer (snd (find_sandbox_droplet read_only_provider (start [])))))
             = Responds rejected"
    by (simp add: f0 create_request_def)
  have d: "fst (read_only_provider (ApiRequest DELETE (Droplet (dict_value two_homed_fields ''id'')) None)
                 (peer (snd (find_sandbox_droplet read_only_provider (start [two_homed])))))
             = Responds rejected"
    by (simp add: f1)
  have e: "status_error rejected = Some ''Client error 422 Unprocessable Entity''"
    by (simp add: rejected_def)
  note t0 = http_failures_at_the_operation_boundary
              [where self = example_manager and stamp = "''100''" and net = small_provider
                 and w = "start []" and snapshot_id = "''img-1''" and size_slug = "''s-2vcpu-2gb''"
                 and config = JNull]
  note t1 = http_failures_at_the_operation_boundary
              [where self = example_manager and snapshot_id = "''img-1''"
                 and size_slug = "''s-2vcpu-2gb''" and net = read_only_provider and w = "start []"
                 and stamp = "''100''" and config = JNull]
  note t2 = http_failures_at_the_operation_boundary
              [where net = read_only_provider and w = "start [two_homed]"
                 and self = example_manager and snapshot_id = "''img-1''"
                 and size_slug = "''s-2vcpu-2gb''" and stamp = "''100''" and config = JNull]
  from t0 b have c1: "fst (build_sandbox_snapshot example_manager ''100'' small_provider (start []))
     = Inr (error_result
              (str_exn (HTTPStatusError ''Client error 422 Unprocessable Entity'' ''droplet is not ready'')))"
    by blast
  from f0 have nf: "\<not> truthy (fst (find_sandbox_droplet read_only_provider (start [])))"
    by simp
  from t1 nf c e have c2: "fst (spawn_sandbox example_manager ''img-1'' ''s-2vcpu-2gb'' read_only_provider (start []))
       = Inr (error_result (''Failed to create droplet: '' @ content rejected))"
    by blast
  from f1 have fo: "fst (find_sandbox_droplet read_only_provider (start [two_homed])) = JObj two_homed_fields"
    by simp
  from t2 fo n d e have c3: "fst (kill_sandbox read_only_provider (start [two_homed]))
       = Inr (error_result (''Failed to destroy droplet: '' @ content rejected))"
    by blast
  have u: "\<not> truthy (fst (find_sandbox_droplet unreachable (start ())))"
    by (simp add: run unreachable_def)
  have v: "fst (unreachable (create_request example_manager ''img-2'' ''s-1vcpu-1gb'')
                 (peer (snd (find_sandbox_droplet unreachable (start ())))))
             = Raises ''connection refused''"
    by (simp add: unreachable_def)
  note t3 = http_failures_at_the_operation_boundary
              [where net = unreachable and w = "start ()"
                 and self = example_manager and snapshot_id = "''img-2''"
                 and size_slug = "''s-1vcpu-1gb''" and stamp = "''100''" and config = JNull]
  from t3 u v have c4: "fst (spawn_sandbox example_manager ''img-2'' ''s-1vcpu-1gb'' unreachable (start ()))
       = Inl (RequestError ''connection refused'')"
    by blast
  from c1 c2 c3 c4 show ?thesis by blast
qed

text \<open>
  C4, as stated, fails: when the client cannot connect, the failed query reads as no
  instance and the exception of the creation request, which is not an
  \<^verbatim>\<open>HTTPStatusError\<close>, escapes \<^verbatim>\<open>spawn_sandbox\<close>.
\<close>

theorem connection_error_escapes_spawn_counterexample:
  "fst (spawn_sandbox example_manager ''img-1'' ''s-2vcpu-2gb'' unreachable (start ()))
     = Inl (RequestError ''connection refused'')"
  by (simp add: spawn_sandbox_def unreachable_def run)




text \<open>
  C9. When the query by tag raises (whatever the exception), \<^verbatim>\<open>get_sandbox_status\<close>
  returns \<^verbatim>\<open>not_created\<close> with null id and addresses, \<^verbatim>\<open>kill_sandbox\<close> returns
  \<^verbatim>\<open>ok\<close> with \<^verbatim>\<open>No sandbox running\<close> and has sent the query only, and
  \<^verbatim>\<open>spawn_sandbox\<close> goes on to send the creation request. The status and the result of
  the kill are those of any provider whose query answers with no instance, and so is the
  result of the spawn when the creation request gets the same outcome.
\<close>

theorem list_failure_reads_as_not_created:
  assumes "fst (request net GET (DropletsByTag SANDBOX_TAG) None w) = Inl e"
  shows "fst (get_sandbox_status net w)
           = Inr (JObj [(''running'', JBool False), (''status'', JStr ''not_created''),
                        (''droplet_id'', JNull), (''ip_address'', JNull), (''private_ip'', JNull)])
         \<and> fst (kill_sandbox net w)
             = Inr (JObj [(''status'', JStr ''ok''), (''message'', JStr ''No sandbox running'')])
         \<and> sent (snd (kill_sandbox net w)) = sent w @ [list_request]
         \<and> sent (snd (spawn_sandbox self snapshot_id size_slug net w))
             = sent w @ [list_request, create_request self snapshot_id size_slug]
         \<and> (\<forall>net' w' data. fst (request net' GET (DropletsByTag SANDBOX_TAG) None (w'::'q world)) = Inr data
                \<and> py_get data ''droplets'' (JList []) = Inr (JList []) \<longrightarrow>
              fst (get_sandbox_status net' w') = fst (get_sandbox_status net w)
              \<and> fst (kill_sandbox net' w') = fst (kill_sandbox net w)
              \<and> (fst (net' (create_request self snapshot_id size_slug)
                          (peer (snd (find_sandbox_droplet net' w'))))
                    = fst (net (create_request self snapshot_id size_slug)
                            (peer (snd (find_sandbox_droplet net w)))) \<longrightarrow>
                   fst (spawn_sandbox self snapshot_id size_slug net' w')
                     = fst (spawn_sandbox self snapshot_id size_slug net w)))"
proof -
  from assms have nf: "\<not> truthy (fst (find_sandbox_droplet net w))"
    by (simp add: find_sandbox_droplet_failed)
  have other: "fst (get_sandbox_status net' w') = Inr not_created_status
      \<and> fst (kill_sandbox net' w')
          = Inr (JObj [(''status'', JStr ''ok''), (''message'', JStr ''No sandbox running'')])
      \<and> (fst (net' (create_request self snapshot_id size_slug)
                  (peer (snd (find_sandbox_droplet net' w'))))
            = fst (net (create_request self snapshot_id size_slug)
                    (peer (snd (find_sandbox_droplet net w)))) \<longrightarrow>
           fst (spawn_sandbox self snapshot_id size_slug net' w')
             = fst (spawn_sandbox self snapshot_id size_slug net w))"
    if "fst (request net' GET (DropletsByTag SANDBOX_TAG) None w') = Inr data"
      and "py_get data ''droplets'' (JList []) = Inr (JList [])"
    for net' :: "'q network" and w' data
  proof -
    from that have nf': "\<not> truthy (fst (find_sandbox_droplet net' w'))"
      by (simp add: find_sandbox_droplet_empty)
    then show ?thesis
      using spawn_sandbox_not_found_result [OF nf nf']
      by (simp add: get_sandbox_status_not_found kill_sandbox_not_found)
  qed
  from nf have g: "fst (get_sandbox_status net w) = Inr not_created_status"
    by (rule get_sandbox_status_not_found)
  from nf have k: "kill_sandbox net w
     = (Inr (JObj [(''status'', JStr ''ok''), (''message'', JStr ''No sandbox running'')]),
        snd (find_sandbox_droplet net w))"
    by (rule kill_sandbox_not_found)
  from nf have s: "sent (snd (spawn_sandbox self snapshot_id size_slug net w))
     = sent w @ [list_request, create_request self snapshot_id size_slug]"
    by (rule spawn_sandbox_not_found_sent)
  from g k s other show ?thesis
    by (simp add: find_sandbox_droplet_sent not_created_status_def)
qed

text \<open>
  C9, a witness: the provider that rejects every request, beside the provider that lists
  no instance and rejects the creation.
\<close>

theorem list_failure_reads_as_not_created_witness:
  "fst (get_sandbox_status failing_provider (start ()))
     = Inr (JObj [(''running'', JBool False), (''status'', JStr ''not_created''),
                  (''droplet_id'', JNull), (''ip_address'', JNull), (''private_ip'', JNull)])
   \<and> fst (kill_sandbox failing_provider (start ()))
       = Inr (JObj [(''status'', JStr ''ok''), (''message'', JStr ''No sandbox running'')])
   \<and> sent (snd (kill_sandbox failing_provider (start ()))) = sent (start ()) @ [list_request]
   \<and> sent (snd (spawn_sandbox example_manager ''img-1'' ''s-2vcpu-2gb'' failing_provider (start ())))
       = sent (start ()) @ [list_request, create_request example_manager ''img-1'' ''s-2vcpu-2gb'']
   \<and> fst (get_sandbox_status read_only_provider (start []))
       = fst (get_sandbox_status failing_provider (start ()))
   \<and> fst (kill_sandbox read_only_provider (start []))
       = fst (kill_sandbox failing_provider (start ()))
   \<and> fst (spawn_sandbox example_manager ''img-1'' ''s-2vcpu-2gb'' read_only_provider (start []))
       = fst (spawn_sandbox example_manager ''img-1'' ''s-2vcpu-2gb'' failing_provider (start ()))"
proof -
  have h: "fst (request failing_provider GET (DropletsByTag SANDBOX_TAG) None (start ()))
             = Inl (HTTPStatusError ''Client error 422 Unprocessable Entity'' ''droplet is not ready'')"
    by (simp add: run failing_provider_def)
  have l0: "fst (request read_only_provider GET (DropletsByTag SANDBOX_TAG) None (start []))
              = Inr (JObj [(''droplets'', JList [])])"
    by (simp add: run)
  have g0: "py_get (JObj [(''droplets'', JList [])]) ''droplets'' (JList []) = Inr (JList [])"
    by (simp add: py_get_def)
  have c: "fst (read_only_provider (create_request example_manager ''img-1'' ''s-2vcpu-2gb'')
                 (peer (snd (find_sandbox_droplet read_only_provider (start [])))))
             = fst (failing_provider (create_request example_manager ''img-1'' ''s-2vcpu-2gb'')
                     (peer (snd (find_sandbox_droplet failing_provider (start ())))))"
    by (simp add: failing_provider_def create_request_def)
  note t = list_failure_reads_as_not_created
             [OF h, where self = example_manager and snapshot_id = "''img-1''"
                and size_slug = "''s-2vcpu-2gb''" and ?'q = "json list"]
  from t l0 g0 c show ?thesis by blast
qed

end
